theory Spec2Isabelle
  imports Complex_Main
begin

section \<open>Python values\<close>

text \<open>
  A Python float is a binary64 number. Here it is a \<open>real option\<close>: \<open>None\<close> is NaN and
  \<open>Some x\<close> a finite value. An operation gives the real result rounded to the nearest
  binary64 number, a tie to the one with the even significand (\<open>to_double\<close>), and a decimal
  of a file or of the program text stands for the binary64 number nearest to it. A result
  beyond the binary64 range, where the machine gives an infinity, is outside this
  development. Calendar days are day numbers, counted from 1970-01-01; a timestamp that
  \<open>pd.to_datetime(..., errors="coerce")\<close> could not parse is \<open>None\<close> (NaT).
  Every \<open>raise\<close> of the scripts is a value of \<open>error\<close>.
\<close>

datatype error =
    FileNotFoundError string
  | ReadError
  | ValueError string
  | IndexError
  | ZeroDivisionError

type_synonym pyfloat = "real option"

type_synonym day = int

text \<open>\<open>round(x)\<close>: to the nearest integer, a tie to the even one.\<close>

definition py_round :: "real \<Rightarrow> int" where
  "py_round x =
     (let f = \<lfloor>x\<rfloor>; d = x - of_int f
      in if d < 1 / 2 then f else if 1 / 2 < d then f + 1 else if even f then f else f + 1)"

subsection \<open>Binary64 rounding\<close>

text \<open>
  The number of binary digits of a natural number, and the exponent \<open>e\<close> of a real
  \<open>x \<noteq> 0\<close>: \<open>2 ^ e \<le> \<bar>x\<bar> < 2 ^ (e + 1)\<close>.
\<close>

fun bit_length :: "nat \<Rightarrow> nat" where
  "bit_length n = (if n = 0 then 0 else Suc (bit_length (n div 2)))"

declare bit_length.simps [simp del]

definition binade :: "real \<Rightarrow> int" where
  "binade x =
     (if 1 \<le> \<bar>x\<bar> then int (bit_length (nat \<lfloor>\<bar>x\<bar>\<rfloor>)) - 1
      else - int (bit_length (nat \<lceil>1 / \<bar>x\<bar>\<rceil> - 1)))"

definition pow2 :: "int \<Rightarrow> real" where
  "pow2 k = (if 0 \<le> k then 2 ^ nat k else 1 / 2 ^ nat (- k))"

text \<open>
  The binary64 number nearest to a real: 53 significant binary digits, the spacing of the
  numbers below \<open>2 ^ -1022\<close> being that of the smallest binade.
\<close>

definition to_double :: "real \<Rightarrow> real" where
  "to_double x =
     (if x = 0 then 0
      else (let ulp = pow2 (max (binade x) (- 1022) - 52)
            in of_int (py_round (x / ulp)) * ulp))"

definition fadd :: "real \<Rightarrow> real \<Rightarrow> real" where
  "fadd x y = to_double (x + y)"

definition fsub :: "real \<Rightarrow> real \<Rightarrow> real" where
  "fsub x y = to_double (x - y)"

definition fmul :: "real \<Rightarrow> real \<Rightarrow> real" where
  "fmul x y = to_double (x * y)"

definition fdiv :: "real \<Rightarrow> real \<Rightarrow> real" where
  "fdiv x y = to_double (x / y)"

subsection \<open>Operations on floats\<close>

definition py_sub :: "pyfloat \<Rightarrow> pyfloat \<Rightarrow> pyfloat" where
  "py_sub a b = (case (a, b) of (Some x, Some y) \<Rightarrow> Some (fsub x y) | _ \<Rightarrow> None)"

definition py_add :: "pyfloat \<Rightarrow> pyfloat \<Rightarrow> pyfloat" where
  "py_add a b = (case (a, b) of (Some x, Some y) \<Rightarrow> Some (fadd x y) | _ \<Rightarrow> None)"

text \<open>\<open>a / b\<close> on floats: a zero divisor raises, whatever the dividend; NaN propagates.\<close>

definition py_truediv :: "pyfloat \<Rightarrow> pyfloat \<Rightarrow> error + pyfloat" where
  "py_truediv a b =
     (if b = Some 0 then Inl ZeroDivisionError
      else case (a, b) of (Some x, Some y) \<Rightarrow> Inr (Some (fdiv x y)) | _ \<Rightarrow> Inr None)"

text \<open>Comparisons with NaN are false.\<close>

definition py_le :: "pyfloat \<Rightarrow> pyfloat \<Rightarrow> bool" where
  "py_le a b = (case (a, b) of (Some x, Some y) \<Rightarrow> x \<le> y | _ \<Rightarrow> False)"

definition py_ge :: "pyfloat \<Rightarrow> pyfloat \<Rightarrow> bool" where
  "py_ge a b = py_le b a"

definition py_abs :: "pyfloat \<Rightarrow> pyfloat" where
  "py_abs a = map_option abs a"

definition py_lt :: "pyfloat \<Rightarrow> pyfloat \<Rightarrow> bool" where
  "py_lt a b = (case (a, b) of (Some x, Some y) \<Rightarrow> x < y | _ \<Rightarrow> False)"

text \<open>
  \<open>round(x, 2)\<close> on a float: the decimal with two places nearest to the binary64 number
  \<open>x\<close> itself (a tie, which only a number like 0.125 makes, to the even last place), as
  a float again.
\<close>

definition round2 :: "real \<Rightarrow> real" where
  "round2 x = to_double (of_int (py_round (x * 100)) / 100)"

text \<open>\<open>float(c)\<close> on a cell of a table: the binary64 number of the decimal in the file.\<close>

definition py_float :: "real \<Rightarrow> real" where
  "py_float c = to_double c"

text \<open>\<open>int(x)\<close> on a finite float truncates towards zero.\<close>

definition py_int :: "real \<Rightarrow> int" where
  "py_int x = (if 0 \<le> x then \<lfloor>x\<rfloor> else \<lceil>x\<rceil>)"

subsection \<open>Rendering numbers and dates\<close>

definition digit_char :: "nat \<Rightarrow> char" where
  "digit_char n = ''0123456789'' ! n"

fun str_nat :: "nat \<Rightarrow> string" where
  "str_nat n = (if n < 10 then [digit_char n] else str_nat (n div 10) @ [digit_char (n mod 10)])"

declare str_nat.simps [simp del]

definition str_int :: "int \<Rightarrow> string" where
  "str_int i = (if i < 0 then ''-'' @ str_nat (nat (- i)) else str_nat (nat i))"

definition zero_pad :: "nat \<Rightarrow> string \<Rightarrow> string" where
  "zero_pad k s = replicate (k - length s) CHR ''0'' @ s"

text \<open>\<open>f"{x:.kf}"\<close> for \<open>k > 0\<close>: fixed point with \<open>k\<close> decimals, \<open>nan\<close> for NaN.\<close>

definition format_f :: "nat \<Rightarrow> pyfloat \<Rightarrow> string" where
  "format_f k x =
     (case x of
        None \<Rightarrow> ''nan''
      | Some v \<Rightarrow>
          (let m = nat (py_round (\<bar>v\<bar> * 10 ^ k))
           in (if v < 0 then ''-'' else '''') @ str_nat (m div 10 ^ k) @ ''.''
              @ zero_pad k (str_nat (m mod 10 ^ k))))"

text \<open>The proleptic Gregorian date (year, month, day) of a day number.\<close>

definition civil_from_days :: "day \<Rightarrow> int \<times> int \<times> int" where
  "civil_from_days z0 =
     (let z = z0 + 719468;
          era = z div 146097;
          doe = z mod 146097;
          yoe = (doe - doe div 1460 + doe div 36524 - doe div 146096) div 365;
          doy = doe - (365 * yoe + yoe div 4 - yoe div 100);
          mp = (5 * doy + 2) div 153;
          d = doy - (153 * mp + 2) div 5 + 1;
          m = (if mp < 10 then mp + 3 else mp - 9);
          y = yoe + era * 400 + (if m \<le> 2 then 1 else 0)
      in (y, m, d))"

text \<open>\<open>strftime("%Y-%m-%d")\<close>.\<close>

definition strftime :: "day \<Rightarrow> string" where
  "strftime z =
     (case civil_from_days z of
        (y, m, d) \<Rightarrow>
          zero_pad 4 (str_int y) @ ''-'' @ zero_pad 2 (str_int m) @ ''-'' @ zero_pad 2 (str_int d))"

text \<open>\<open>"\n".join(lines)\<close>.\<close>

fun join_lines :: "string list \<Rightarrow> string" where
  "join_lines [] = []"
| "join_lines [l] = l"
| "join_lines (l # ls) = l @ [CHR 0x0A] @ join_lines ls"

text \<open>
  \<open>xs.iloc[i]\<close>: a negative position counts from the end, a position outside the frame
  raises IndexError.
\<close>

definition iloc :: "'a list \<Rightarrow> int \<Rightarrow> error + 'a" where
  "iloc frame_rows pos =
     (if 0 \<le> pos \<and> pos < int (length frame_rows) then Inr (frame_rows ! nat pos)
      else if pos < 0 \<and> - int (length frame_rows) \<le> pos
           then Inr (frame_rows ! nat (int (length frame_rows) + pos))
           else Inl IndexError)"

section \<open>build_daily_kpi.py\<close>

text \<open>
  The three input files after \<open>pd.read_csv\<close>; a file that does not exist is \<open>None\<close>.
  A purchase timestamp is a calendar day and a second of that day. An identifier is the
  string of its cell, and \<open>None\<close> (NaN) where \<open>read_csv\<close> takes the cell for a missing
  value, as it does an empty cell; a status is the string of its cell; prices and payment
  values are the decimals of their cells, NaN where the cell is empty.
\<close>

type_synonym timestamp = "day \<times> nat"

record order =
  order_id :: "string option"
  order_status :: string
  order_purchase_timestamp :: "timestamp option"
  order_delivered_customer_date :: string

record item =
  order_id :: "string option"
  price :: pyfloat
  freight_value :: pyfloat

record payment =
  order_id :: "string option"
  payment_value :: pyfloat

text \<open>
  A cell of the column \<open>avg_order_value\<close>. The column is first made by a division of two
  columns, which gives an infinity or NaN where the divisor is 0.
\<close>

datatype npfloat = Nan | Inf | Neg_inf | Finite real

text \<open>
  A row of the frame \<open>daily\<close>; any cell but the date can be NaN. \<open>cols\<close> names the
  columns the frame has: a cell of a column that is not there carries nothing.
\<close>

record frame_row =
  date :: day
  orders_count :: pyfloat
  canceled_orders :: pyfloat
  revenue_items :: pyfloat
  revenue_payments :: pyfloat
  revenue :: pyfloat
  avg_order_value :: npfloat

record frame =
  cols :: "string list"
  data :: "frame_row list"

definition ORDERS_FILE :: string where
  "ORDERS_FILE = ''olist_orders_dataset.csv''"

definition ITEMS_FILE :: string where
  "ITEMS_FILE = ''olist_order_items_dataset.csv''"

text \<open>
  The float that \<open>read_csv\<close> makes of a cell: the one nearest to the decimal (for
  the decimals of some fifteen digits that such tables hold, the parser of pandas gives
  it). And \<open>fillna(0)\<close> on one cell.
\<close>

definition read_float :: "pyfloat \<Rightarrow> pyfloat" where
  "read_float c = map_option to_double c"

definition fillna0 :: "pyfloat \<Rightarrow> pyfloat" where
  "fillna0 x = (case x of None \<Rightarrow> Some 0 | Some v \<Rightarrow> Some v)"

definition np_fillna0 :: "npfloat \<Rightarrow> npfloat" where
  "np_fillna0 x = (case x of Nan \<Rightarrow> Finite 0 | _ \<Rightarrow> x)"

text \<open>
  Division of the revenue column by the column of counts, cell by cell: a count of 0
  gives an infinity with the sign of the revenue, and NaN when the revenue is 0 too.
\<close>

definition np_div :: "pyfloat \<Rightarrow> pyfloat \<Rightarrow> npfloat" where
  "np_div a b =
     (case (a, b) of
        (Some x, Some y) \<Rightarrow>
          if y = 0 then (if x = 0 then Nan else if 0 < x then Inf else Neg_inf)
          else Finite (fdiv x y)
      | _ \<Rightarrow> Nan)"

text \<open>
  \<open>Series.round(2)\<close>: numpy multiplies by 100, rounds to the nearest integer (a tie to the
  even one) and divides by 100, each step on floats.
\<close>

definition np_round2 :: "npfloat \<Rightarrow> npfloat" where
  "np_round2 x =
     (case x of Finite v \<Rightarrow> Finite (fdiv (of_int (py_round (fmul v 100))) 100) | _ \<Rightarrow> x)"

definition purchase_date :: "order \<Rightarrow> day option" where
  "purchase_date ord = map_option fst (order_purchase_timestamp ord)"

text \<open>
  \<open>merge(orders[["order_id", "purchase_date"]], on="order_id", how="inner")\<close>: a record is
  paired with every order of its identifier, and dropped when there is none. pandas takes
  two NaN keys for equal: a record without an identifier is paired with every order
  without one.
\<close>

definition merge_orders :: "order list \<Rightarrow> string option \<Rightarrow> day list" where
  "merge_orders orders k =
     map (\<lambda>ord. the (purchase_date ord)) (filter (\<lambda>ord. order.order_id ord = k) orders)"

definition items_merged :: "item list \<Rightarrow> order list \<Rightarrow> (day \<times> pyfloat) list" where
  "items_merged items orders =
     concat (map (\<lambda>i. map (\<lambda>d. (d, py_add (fillna0 (read_float (price i)))
                                       (fillna0 (read_float (freight_value i)))))
                         (merge_orders orders (item.order_id i)))
                 items)"

definition payments_merged :: "payment list \<Rightarrow> order list \<Rightarrow> (day \<times> pyfloat) list" where
  "payments_merged payments orders =
     concat (map (\<lambda>p. map (\<lambda>d. (d, read_float (payment_value p)))
                         (merge_orders orders (payment.order_id p)))
                 payments)"

text \<open>
  \<open>groupby("purchase_date")[...].sum()\<close>, then the left merge on the date: the sum of the
  group of day \<open>d\<close> (NaN cells skipped), NaN when no row has that day. pandas adds the
  cells of a group in their order, with a running compensation (Kahan).
\<close>

definition kahan_add :: "real \<times> real \<Rightarrow> real \<Rightarrow> real \<times> real" where
  "kahan_add acc val =
     (case acc of
        (sumx, compensation) \<Rightarrow>
          (let y = fsub val compensation;
               t = fadd sumx y
           in (t, fsub (fsub t sumx) y)))"

definition group_sum :: "(day \<times> pyfloat) list \<Rightarrow> day \<Rightarrow> pyfloat" where
  "group_sum rs d =
     (if d \<in> fst ` set rs
      then Some (fst (foldl kahan_add (0, 0)
                        (concat (map (\<lambda>r. case snd r of None \<Rightarrow> [] | Some v \<Rightarrow> [v])
                                     (filter (\<lambda>r. fst r = d) rs)))))
      else None)"

text \<open>Daily orders and canceled orders: one row for each purchase day, ascending.\<close>

definition group_keys :: "order list \<Rightarrow> day list" where
  "group_keys orders = sort (remdups (map (\<lambda>ord. the (purchase_date ord)) orders))"

text \<open>\<open>nunique\<close>: the number of distinct identifiers of a group, NaN not counted.\<close>

definition nunique :: "string option list \<Rightarrow> nat" where
  "nunique ids = length (remdups (filter (\<lambda>i. i \<noteq> None) ids))"

definition canceled_count :: "order list \<Rightarrow> nat" where
  "canceled_count g =
     length (filter (\<lambda>ord. order_status ord \<in> set [''canceled'', ''unavailable'']) g)"

text \<open>
  Sections 3 and 5 of the script: \<open>orders_daily\<close> with the revenue columns merged in, the
  official revenue and the first \<open>avg_order_value\<close>.
\<close>

definition combine ::
  "bool \<Rightarrow> order list \<Rightarrow> (day \<times> pyfloat) list \<Rightarrow> (day \<times> pyfloat) list \<Rightarrow> frame_row list"
where
  "combine has_payments orders daily_revenue_items daily_revenue_payments =
     map (\<lambda>d.
            let g = filter (\<lambda>ord. purchase_date ord = Some d) orders;
                n = Some (real (nunique (map order.order_id g)));
                ri = group_sum daily_revenue_items d;
                rp = (if has_payments then group_sum daily_revenue_payments d else None);
                rev = (if has_payments then fillna0 rp else fillna0 ri)
            in \<lparr> date = d,
                 orders_count = n,
                 canceled_orders = Some (real (canceled_count g)),
                 revenue_items = ri,
                 revenue_payments = rp,
                 revenue = rev,
                 avg_order_value = np_round2 (np_div rev n) \<rparr>)
         (group_keys orders)"

text \<open>
  Section 6.5, the calendar spine. \<open>reindex(full_range)\<close>: the row of each day of the
  range, a row of NaN cells for a day the frame does not have.
\<close>

definition blank_row :: "day \<Rightarrow> frame_row" where
  "blank_row d = \<lparr> date = d, orders_count = None, canceled_orders = None,
                    revenue_items = None, revenue_payments = None,
                    revenue = None, avg_order_value = Nan \<rparr>"

definition reindex :: "day list \<Rightarrow> frame_row list \<Rightarrow> frame_row list" where
  "reindex full_range daily =
     map (\<lambda>d. case find (\<lambda>r. date r = d) daily of Some r \<Rightarrow> r | None \<Rightarrow> blank_row d)
         full_range"

text \<open>The two loops of \<open>fillna(0)\<close>: NaN cells become 0, an infinity stays.\<close>

definition fill_zero :: "bool \<Rightarrow> frame_row \<Rightarrow> frame_row" where
  "fill_zero has_payments r =
     r \<lparr> orders_count := fillna0 (orders_count r),
         revenue := fillna0 (revenue r),
         canceled_orders := fillna0 (canceled_orders r),
         avg_order_value := np_fillna0 (avg_order_value r),
         revenue_items := fillna0 (revenue_items r),
         revenue_payments := (if has_payments then fillna0 (revenue_payments r)
                              else revenue_payments r) \<rparr>"

text \<open>
  \<open>round(r["revenue"] / r["orders_count"], 2) if r["orders_count"] > 0 else 0\<close>, on the
  floats of the row; the cell the column held before is not read. \<open>DataFrame.apply\<close>
  calls it on each row in turn, and what a call raises ends the script.
\<close>

definition recompute_aov :: "frame_row \<Rightarrow> error + frame_row" where
  "recompute_aov r =
     (if py_lt (Some 0) (orders_count r)
      then (case py_truediv (revenue r) (orders_count r) of
              Inl e \<Rightarrow> Inl e
            | Inr q \<Rightarrow>
                Inr (r \<lparr> avg_order_value :=
                           (case q of None \<Rightarrow> Nan | Some x \<Rightarrow> Finite (round2 x)) \<rparr>))
      else Inr (r \<lparr> avg_order_value := Finite 0 \<rparr>))"

fun apply_rows :: "('a \<Rightarrow> error + 'b) \<Rightarrow> 'a list \<Rightarrow> error + 'b list" where
  "apply_rows f [] = Inr []"
| "apply_rows f (r # rs) =
     (case f r of
        Inl e \<Rightarrow> Inl e
      | Inr v \<Rightarrow> (case apply_rows f rs of Inl e \<Rightarrow> Inl e | Inr vs \<Rightarrow> Inr (v # vs)))"

definition out_cols :: "bool \<Rightarrow> string list" where
  "out_cols has_payments =
     [''date'', ''orders_count'', ''revenue'', ''canceled_orders'', ''avg_order_value'']
     @ (if has_payments then [''revenue_items'', ''revenue_payments''] else [])"

text \<open>
  The script from its files to the frame it exports. What it prints is left out, and so
  are the two renderings of the date as text (before the sort and for the export): the
  rows keep the day, and the sort is by day.
\<close>

definition build_daily_kpi ::
  "order list option \<Rightarrow> item list option \<Rightarrow> payment list option \<Rightarrow> error + frame"
where
  "build_daily_kpi orders_file items_file payments_file =
     (case orders_file of
        None \<Rightarrow> Inl (FileNotFoundError ORDERS_FILE)
      | Some all_orders \<Rightarrow>
          (let orders = filter (\<lambda>ord. order_purchase_timestamp ord \<noteq> None) all_orders
           in if orders = []
              then Inl (ValueError ''No valid order_purchase_timestamp after parsing.'')
              else
                (case items_file of
                   None \<Rightarrow> Inl (FileNotFoundError ITEMS_FILE)
                 | Some items \<Rightarrow>
                     (let daily_revenue_items = items_merged items orders;
                          has_payments = (payments_file \<noteq> None);
                          daily_revenue_payments =
                            (case payments_file of None \<Rightarrow> []
                             | Some payments \<Rightarrow> payments_merged payments orders);
                          daily = combine has_payments orders daily_revenue_items
                                    daily_revenue_payments;
                          daily = sort_key date daily;
                          full_range = [Min (set (map date daily)) .. Max (set (map date daily))];
                          daily = reindex full_range daily;
                          daily = map (fill_zero has_payments) daily
                      in case apply_rows recompute_aov daily of
                           Inl e \<Rightarrow> Inl e
                         | Inr daily \<Rightarrow>
                             Inr \<lparr> cols = out_cols has_payments, data = daily \<rparr>))))"

section \<open>detect_anomalies.py\<close>

subsection \<open>Config\<close>

definition DATA_FILE :: string where
  "DATA_FILE = ''daily_ops_metrics.csv''"

definition ROLLING_DAYS :: nat where
  "ROLLING_DAYS = 7"

text \<open>\<open>SIM_START_DATE = "2017-01-12"\<close>, as a day number.\<close>

definition SIM_START_DATE :: day where
  "SIM_START_DATE = 17178"

text \<open>The thresholds \<open>TH\<close>: the floats of the decimals in the program text.\<close>

definition revenue_drop_medium :: real where "revenue_drop_medium = to_double 0.15"
definition revenue_drop_high :: real where "revenue_drop_high = to_double 0.25"
definition orders_drop_medium :: real where "orders_drop_medium = to_double 0.12"
definition orders_drop_high :: real where "orders_drop_high = to_double 0.20"
definition aov_drop_medium :: real where "aov_drop_medium = to_double 0.15"
definition aov_drop_high :: real where "aov_drop_high = to_double 0.25"
definition cancel_spike_medium :: real where "cancel_spike_medium = to_double 0.60"
definition cancel_spike_high :: real where "cancel_spike_high = to_double 1.20"

subsection \<open>Helpers\<close>

definition pct_change :: "pyfloat \<Rightarrow> pyfloat \<Rightarrow> error + pyfloat" where
  "pct_change today baseline =
     (if baseline = Some 0 \<or> baseline = None then Inr (Some 0)
      else py_truediv (py_sub today baseline) baseline)"

text \<open>
  The state file holds a JSON object with integer values; \<open>None\<close> is a file that is absent
  or that \<open>json.load\<close> cannot read.
\<close>

type_synonym state = "string \<rightharpoonup> int"

type_synonym state_file = "state option"

definition load_state :: "state_file \<Rightarrow> state" where
  "load_state f = (case f of None \<Rightarrow> [''cursor'' \<mapsto> 0] | Some s \<Rightarrow> s)"

definition save_state :: "state \<Rightarrow> state_file" where
  "save_state s = Some s"

subsection \<open>Signals and the payload\<close>

record signal =
  metric :: string
  direction :: string
  severity :: string
  details :: string

record payload =
  run_time :: string
  sim_cursor :: int
  date :: string
  status :: string
  signals_count :: nat
  signals :: "signal list"
  summary :: string

text \<open>
  What one run prints, and what the webhook call does: it answers with a status code or
  raises (connection refused, timeout, ...).
\<close>

datatype post_result = Response nat | Raised string

datatype printed =
    Payload_json payload
  | Webhook_status nat
  | Webhook_failed string

record run =
  sent :: payload
  stdout :: "printed list"

subsection \<open>The table and its baselines\<close>

text \<open>
  A row of \<open>daily_ops_metrics.csv\<close> after \<open>pd.to_datetime\<close> on its date. The metric cells
  are numbers, the decimals of the file, as in every table build_daily_kpi.py writes (it fills each metric column
  with 0 before the export); \<open>columns\<close> is the header line. A table with an empty metric
  cell is outside this type: on a row with such a count, \<open>int(ord_today)\<close> of line 154
  raises ValueError, before the state is written.
\<close>

record daily_row =
  date :: "day option"
  orders_count :: real
  revenue :: real
  canceled_orders :: real
  avg_order_value :: real

record table =
  columns :: "string list"
  rows :: "daily_row list"

datatype data_file = Missing | Unreadable | Csv table

record baseline_row = daily_row +
  base_orders_count :: pyfloat
  base_revenue :: pyfloat
  base_canceled_orders :: pyfloat
  base_avg_order_value :: pyfloat

definition required :: "string list" where
  "required = [''date'', ''orders_count'', ''revenue'', ''canceled_orders'', ''avg_order_value'']"

text \<open>
  \<open>sort_values("date")\<close>: ascending, the NaT rows last. Rows of equal date keep their
  order here; pandas leaves the order of ties open.
\<close>

definition sort_values :: "daily_row list \<Rightarrow> daily_row list" where
  "sort_values df =
     sort_key (\<lambda>r. the (date r)) (filter (\<lambda>r. date r \<noteq> None) df)
     @ filter (\<lambda>r. date r = None) df"

text \<open>
  \<open>rolling(w).mean()\<close>: at position \<open>i\<close> the mean of the \<open>w\<close> values ending at \<open>i\<close>,
  NaN while fewer than \<open>w\<close> values are there. \<open>shift(1)\<close> moves every value one row down.
  The mean is the mean of the cells; the float of it is taken where the row is read.
\<close>

definition rolling_mean :: "nat \<Rightarrow> real list \<Rightarrow> pyfloat list" where
  "rolling_mean w xs =
     map (\<lambda>i. if w \<le> i + 1 then Some (sum_list (take w (drop (i + 1 - w) xs)) / real w)
              else None)
         [0..<length xs]"

definition shift1 :: "pyfloat list \<Rightarrow> pyfloat list" where
  "shift1 ys = (if ys = [] then [] else None # butlast ys)"

definition base_column :: "(daily_row \<Rightarrow> real) \<Rightarrow> daily_row list \<Rightarrow> pyfloat list" where
  "base_column col df = shift1 (rolling_mean ROLLING_DAYS (map col df))"

definition add_baselines :: "daily_row list \<Rightarrow> baseline_row list" where
  "add_baselines df =
     map (\<lambda>i. \<lparr> date = date (df ! i),
                orders_count = orders_count (df ! i),
                revenue = revenue (df ! i),
                canceled_orders = canceled_orders (df ! i),
                avg_order_value = avg_order_value (df ! i),
                base_orders_count = base_column orders_count df ! i,
                base_revenue = base_column revenue df ! i,
                base_canceled_orders = base_column canceled_orders df ! i,
                base_avg_order_value = base_column avg_order_value df ! i \<rparr>)
         [0..<length df]"

definition dropna :: "baseline_row list \<Rightarrow> baseline_row list" where
  "dropna df =
     filter (\<lambda>r. base_orders_count r \<noteq> None \<and> base_revenue r \<noteq> None
                \<and> base_canceled_orders r \<noteq> None \<and> base_avg_order_value r \<noteq> None) df"

definition on_or_after :: "day \<Rightarrow> baseline_row \<Rightarrow> bool" where
  "on_or_after start r = (case date r of None \<Rightarrow> False | Some d \<Rightarrow> start \<le> d)"

text \<open>Lines 59 to 84 of \<open>main\<close>: from the file to the candidate rows.\<close>

definition load_candidates :: "data_file \<Rightarrow> error + baseline_row list" where
  "load_candidates f =
     (case f of
        Missing \<Rightarrow> Inl (FileNotFoundError DATA_FILE)
      | Unreadable \<Rightarrow> Inl ReadError
      | Csv t \<Rightarrow>
          if \<not> set required \<subseteq> set (columns t)
          then Inl (ValueError ''daily_ops_metrics.csv missing columns'')
          else
            (let df = sort_values (rows t);
                 df = add_baselines df;
                 candidates = dropna df;
                 candidates = filter (on_or_after SIM_START_DATE) candidates
             in if candidates = []
                then Inl (ValueError ''No candidate rows after SIM_START_DATE. Check SIM_START_DATE or data coverage.'')
                else Inr candidates))"

subsection \<open>Classification\<close>

text \<open>
  The four blocks of \<open>main\<close> that append to \<open>signals\<close>; each gets the change computed by
  \<open>pct_change\<close> and compares it, as a float, with the floats of \<open>TH\<close>. A NaN change
  satisfies no comparison.
\<close>

definition revenue_signals :: "pyfloat \<Rightarrow> signal list" where
  "revenue_signals rev_change =
     (if py_le rev_change (Some (- revenue_drop_medium))
      then [\<lparr> metric = ''revenue'', direction = ''down'',
               severity = (if py_ge (py_abs rev_change) (Some revenue_drop_high)
                           then ''high'' else ''medium''),
               details = ''Revenue '' @ str_int (py_round (fmul (the rev_change) 100)) @ ''% vs ''
                         @ str_nat ROLLING_DAYS @ ''-day avg'' \<rparr>]
      else [])"

definition orders_signals :: "pyfloat \<Rightarrow> signal list" where
  "orders_signals ord_change =
     (if py_le ord_change (Some (- orders_drop_medium))
      then [\<lparr> metric = ''orders'', direction = ''down'',
               severity = (if py_ge (py_abs ord_change) (Some orders_drop_high)
                           then ''high'' else ''medium''),
               details = ''Orders '' @ str_int (py_round (fmul (the ord_change) 100)) @ ''% vs ''
                         @ str_nat ROLLING_DAYS @ ''-day avg'' \<rparr>]
      else [])"

definition aov_signals :: "pyfloat \<Rightarrow> signal list" where
  "aov_signals aov_change =
     (if py_le aov_change (Some (- aov_drop_medium))
      then [\<lparr> metric = ''avg_order_value'', direction = ''down'',
               severity = (if py_ge (py_abs aov_change) (Some aov_drop_high)
                           then ''high'' else ''medium''),
               details = ''AOV '' @ str_int (py_round (fmul (the aov_change) 100)) @ ''% vs ''
                         @ str_nat ROLLING_DAYS @ ''-day avg'' \<rparr>]
      else [])"

definition cancel_signals :: "pyfloat \<Rightarrow> signal list" where
  "cancel_signals can_change =
     (if py_ge can_change (Some cancel_spike_medium)
      then [\<lparr> metric = ''canceled_orders'', direction = ''up'',
               severity = (if py_ge can_change (Some cancel_spike_high)
                           then ''high'' else ''medium''),
               details = ''Cancellations +'' @ str_int (py_round (fmul (the can_change) 100))
                         @ ''% vs '' @ str_nat ROLLING_DAYS @ ''-day avg'' \<rparr>]
      else [])"

text \<open>
  Lines 96 to 148: the signal list of one candidate row, in the order of the blocks. The
  row holds the decimals of the file and the means of the baseline; \<open>float(row[...])\<close> is
  the float of each.
\<close>

definition classify :: "baseline_row \<Rightarrow> error + signal list" where
  "classify row =
     (case pct_change (Some (py_float (revenue row)))
             (map_option py_float (base_revenue row)) of
        Inl e \<Rightarrow> Inl e
      | Inr rev_change \<Rightarrow>
     (case pct_change (Some (py_float (orders_count row)))
             (map_option py_float (base_orders_count row)) of
        Inl e \<Rightarrow> Inl e
      | Inr ord_change \<Rightarrow>
     (case pct_change (Some (py_float (avg_order_value row)))
             (map_option py_float (base_avg_order_value row)) of
        Inl e \<Rightarrow> Inl e
      | Inr aov_change \<Rightarrow>
     (case pct_change (Some (py_float (canceled_orders row)))
             (map_option py_float (base_canceled_orders row)) of
        Inl e \<Rightarrow> Inl e
      | Inr can_change \<Rightarrow>
          Inr (revenue_signals rev_change @ orders_signals ord_change
               @ aov_signals aov_change @ cancel_signals can_change)))))"

text \<open>Lines 150 to 161: the status and the summary text.\<close>

definition status_of :: "signal list \<Rightarrow> string" where
  "status_of sigs = (if sigs \<noteq> [] then ''anomaly_detected'' else ''normal'')"

definition signal_line :: "signal \<Rightarrow> string" where
  "signal_line s =
     ''- '' @ metric s @ '' ('' @ direction s @ '', '' @ severity s @ ''): '' @ details s"

definition summary_lines :: "string \<Rightarrow> baseline_row \<Rightarrow> signal list \<Rightarrow> string list" where
  "summary_lines date_str row sigs =
     [''Date: '' @ date_str @ '' | Status: '' @ status_of sigs,
      ''Orders: '' @ str_int (py_int (py_float (orders_count row)))
        @ '' (avg '' @ format_f 1 (map_option py_float (base_orders_count row))
        @ '') | Revenue: '' @ format_f 2 (Some (py_float (revenue row)))
        @ '' (avg '' @ format_f 2 (map_option py_float (base_revenue row)) @ '')'',
      ''Canceled: '' @ str_int (py_int (py_float (canceled_orders row)))
        @ '' (avg '' @ format_f 1 (map_option py_float (base_canceled_orders row))
        @ '') | AOV: '' @ format_f 2 (Some (py_float (avg_order_value row)))
        @ '' (avg '' @ format_f 2 (map_option py_float (base_avg_order_value row)) @ '')'']
     @ (if sigs \<noteq> [] then ''Signals:'' # map signal_line sigs else [''Signals: none''])"

text \<open>
  Lines 93 to 171: the row at the cursor, its signals and the payload. \<open>now\<close> is the
  clock of the run, as \<open>datetime.now().isoformat(timespec="seconds")\<close> renders it.
\<close>

definition evaluate :: "baseline_row list \<Rightarrow> int \<Rightarrow> string \<Rightarrow> error + payload" where
  "evaluate candidates cursor now =
     (case iloc candidates cursor of
        Inl e \<Rightarrow> Inl e
      | Inr row \<Rightarrow>
     (case daily_row.date row of
        None \<Rightarrow> Inl (ValueError ''NaTType does not support strftime'')
      | Some d \<Rightarrow>
     (case classify row of
        Inl e \<Rightarrow> Inl e
      | Inr sigs \<Rightarrow>
          Inr \<lparr> run_time = now,
                sim_cursor = cursor,
                date = strftime d,
                status = status_of sigs,
                signals_count = length sigs,
                signals = sigs,
                summary = join_lines (summary_lines (strftime d) row sigs) \<rparr>)))"

text \<open>Lines 177 to 181: the POST; what it raises is caught and printed.\<close>

definition push :: "(payload \<Rightarrow> post_result) \<Rightarrow> payload \<Rightarrow> printed" where
  "push post p = (case post p of Response code \<Rightarrow> Webhook_status code
                                | Raised msg \<Rightarrow> Webhook_failed msg)"

text \<open>Lines 90 and 91: \<open>if cursor >= len(candidates): cursor = 0\<close>.\<close>

definition wrap_cursor :: "int \<Rightarrow> nat \<Rightarrow> int" where
  "wrap_cursor cursor n = (if int n \<le> cursor then 0 else cursor)"

text \<open>
  \<open>main\<close>, on the data file, the state file, the clock and the webhook: what the run
  raised or did, and the state file it leaves. \<open>save_state\<close> is its last statement.
\<close>

definition main ::
  "data_file \<Rightarrow> state_file \<Rightarrow> string \<Rightarrow> (payload \<Rightarrow> post_result) \<Rightarrow> (error + run) \<times> state_file"
where
  "main f sf now post =
     (case load_candidates f of
        Inl e \<Rightarrow> (Inl e, sf)
      | Inr candidates \<Rightarrow>
          (let state = load_state sf;
               cursor = (case state ''cursor'' of None \<Rightarrow> 0 | Some c \<Rightarrow> c);
               cursor = wrap_cursor cursor (length candidates)
           in case evaluate candidates cursor now of
                Inl e \<Rightarrow> (Inl e, sf)
              | Inr p \<Rightarrow>
                  (let out = [Payload_json p, push post p];
                       state = state(''cursor'' \<mapsto> cursor + 1)
                   in (Inr \<lparr> sent = p, stdout = out \<rparr>, save_state state))))"

section \<open>Notions used in the properties\<close>

text \<open>
  The value of a column on a calendar day, the mean of a column over the \<open>ROLLING_DAYS\<close>
  calendar days before a day, and the tables whose rows are consecutive calendar days.
\<close>

definition value_on :: "(daily_row \<Rightarrow> real) \<Rightarrow> daily_row list \<Rightarrow> day \<Rightarrow> real option" where
  "value_on col df d = map_option col (find (\<lambda>r. date r = Some d) df)"

definition window_mean :: "(daily_row \<Rightarrow> real) \<Rightarrow> daily_row list \<Rightarrow> day \<Rightarrow> real" where
  "window_mean col df d =
     sum_list (map (\<lambda>j. the (value_on col df (d - int j))) [1..<Suc ROLLING_DAYS])
       / real ROLLING_DAYS"

definition consecutive_days :: "daily_row list \<Rightarrow> bool" where
  "consecutive_days df =
     (case df of
        [] \<Rightarrow> True
      | r # _ \<Rightarrow> (case date r of
                    None \<Rightarrow> False
                  | Some d0 \<Rightarrow> map date df = map (\<lambda>i. Some (d0 + int i)) [0..<length df]))"

text \<open>
  The purchase days of the orders whose timestamp could be parsed. The \<open>avg_order_value\<close>
  that lines 167 to 171 give to a row of revenue \<open>v\<close> with \<open>n\<close> orders, and what the script
  does to a row after \<open>reindex\<close>: the fill with zeros, then the new \<open>avg_order_value\<close>.
\<close>

definition purchase_days :: "order list \<Rightarrow> day list" where
  "purchase_days all_orders =
     map (\<lambda>ord. the (purchase_date ord)) (filter (\<lambda>ord. order_purchase_timestamp ord \<noteq> None) all_orders)"

definition aov_of :: "real \<Rightarrow> real \<Rightarrow> npfloat" where
  "aov_of v n = (if 0 < n then Finite (round2 (fdiv v n)) else Finite 0)"

definition final_row :: "bool \<Rightarrow> frame_row \<Rightarrow> frame_row" where
  "final_row hp r = projr (recompute_aov (fill_zero hp r))"

text \<open>A row with another cell in the column \<open>avg_order_value\<close>.\<close>

definition with_aov :: "npfloat \<Rightarrow> frame_row \<Rightarrow> frame_row" where
  "with_aov a r = r \<lparr> frame_row.avg_order_value := a \<rparr>"

text \<open>
  The revenue signal of a change \<open>pct\<close>, with its severity, and the revenue signals of
  a signal list.
\<close>

definition revenue_signal :: "string \<Rightarrow> real \<Rightarrow> signal" where
  "revenue_signal sev pct =
     \<lparr> metric = ''revenue'', direction = ''down'', severity = sev,
       details = ''Revenue '' @ str_int (py_round (fmul pct 100)) @ ''% vs 7-day avg'' \<rparr>"

definition revenue_part :: "signal list \<Rightarrow> signal list" where
  "revenue_part sigs = filter (\<lambda>s. metric s = ''revenue'') sigs"

text \<open>
  The cursor that \<open>main\<close> loads from a state file, the cursor a state file holds, and the
  state files of the data model: no cursor, or a cursor that is not negative. \<open>main\<close>
  writes no other (lemma \<open>main_keeps_valid\<close>), so every state file that runs of \<open>main\<close>
  leave behind, from an absent file on, is one of them (lemma \<open>replay_valid\<close>).
\<close>

definition stored_cursor :: "state_file \<Rightarrow> int" where
  "stored_cursor sf = (case load_state sf ''cursor'' of None \<Rightarrow> 0 | Some c \<Rightarrow> c)"

definition cursor_of :: "state_file \<Rightarrow> int option" where
  "cursor_of sf = (case sf of None \<Rightarrow> None | Some s \<Rightarrow> s ''cursor'')"

definition valid_state :: "state_file \<Rightarrow> bool" where
  "valid_state sf = (case cursor_of sf of None \<Rightarrow> True | Some c \<Rightarrow> 0 \<le> c)"

fun replay ::
  "(data_file \<times> string \<times> (payload \<Rightarrow> post_result)) list \<Rightarrow> state_file \<Rightarrow> state_file"
where
  "replay [] sf = sf"
| "replay ((f, now, post) # rest) sf = replay rest (snd (main f sf now post))"

text \<open>The payload of a row with a date, and the eligible days of a table.\<close>

definition render :: "baseline_row \<Rightarrow> int \<Rightarrow> string \<Rightarrow> payload" where
  "render row cursor now =
     \<lparr> run_time = now,
       sim_cursor = cursor,
       date = strftime (the (daily_row.date row)),
       status = status_of (projr (classify row)),
       signals_count = length (projr (classify row)),
       signals = projr (classify row),
       summary = join_lines (summary_lines (strftime (the (daily_row.date row))) row
                               (projr (classify row))) \<rparr>"

definition eligible :: "table \<Rightarrow> baseline_row list" where
  "eligible t = filter (on_or_after SIM_START_DATE) (dropna (add_baselines (sort_values (rows t))))"

subsection \<open>Sample inputs\<close>

text \<open>
  Nine days from 2017-01-05 on: seven even days, then a day 15 per cent below them in
  revenue and a day with fewer orders.
\<close>

definition sample_day :: "day \<Rightarrow> real \<Rightarrow> real \<Rightarrow> daily_row" where
  "sample_day d n v =
     \<lparr> date = Some d, orders_count = n, revenue = v, canceled_orders = 2,
       avg_order_value = v / n \<rparr>"

definition sample_rows :: "daily_row list" where
  "sample_rows =
     [sample_day 17171 100 1000, sample_day 17172 100 1000, sample_day 17173 100 1000,
      sample_day 17174 100 1000, sample_day 17175 100 1000, sample_day 17176 100 1000,
      sample_day 17177 100 1000, sample_day 17178 100 850, sample_day 17179 80 700]"

definition sample_candidate :: baseline_row where
  "sample_candidate =
     \<lparr> date = Some 17178, orders_count = 100, revenue = 850, canceled_orders = 2,
       avg_order_value = 17 / 2, base_orders_count = Some 100, base_revenue = Some 1000,
       base_canceled_orders = Some 2, base_avg_order_value = Some 10 \<rparr>"

text \<open>
  The table of the nine days, its two eligible days, the same rows under a header without
  the count columns, and the first seven days alone. The webhook of the samples refuses
  every connection.
\<close>

definition sample_table :: table where
  "sample_table = \<lparr> columns = required, rows = sample_rows \<rparr>"

definition sample_candidates :: "baseline_row list" where
  "sample_candidates =
     [sample_candidate,
      \<lparr> date = Some 17179, orders_count = 80, revenue = 700, canceled_orders = 2,
        avg_order_value = 35 / 4, base_orders_count = Some 100, base_revenue = Some (6850 / 7),
        base_canceled_orders = Some 2, base_avg_order_value = Some (137 / 14) \<rparr>]"

definition no_columns_table :: table where
  "no_columns_table = \<lparr> columns = [''date'', ''revenue''], rows = sample_rows \<rparr>"

definition short_table :: table where
  "short_table = \<lparr> columns = required, rows = take 7 sample_rows \<rparr>"

text \<open>
  Tables of eight days with one order a day: seven days of revenue \<open>b\<close>, then a day of
  revenue \<open>v\<close>, and the one eligible day of such a table.
\<close>

definition boundary_day :: "day \<Rightarrow> real \<Rightarrow> daily_row" where
  "boundary_day d v =
     \<lparr> date = Some d, orders_count = 1, revenue = v, canceled_orders = 0, avg_order_value = v \<rparr>"

definition boundary_table :: "real \<Rightarrow> real \<Rightarrow> table" where
  "boundary_table b v =
     \<lparr> columns = required,
       rows = [boundary_day 17171 b, boundary_day 17172 b, boundary_day 17173 b,
               boundary_day 17174 b, boundary_day 17175 b, boundary_day 17176 b,
               boundary_day 17177 b, boundary_day 17178 v] \<rparr>"

definition boundary_candidate :: "real \<Rightarrow> real \<Rightarrow> baseline_row" where
  "boundary_candidate b v =
     \<lparr> date = Some 17178, orders_count = 1, revenue = v, canceled_orders = 0,
       avg_order_value = v, base_orders_count = Some 1, base_revenue = Some b,
       base_canceled_orders = Some 0, base_avg_order_value = Some b \<rparr>"

definition sample_post :: "payload \<Rightarrow> post_result" where
  "sample_post p = Raised ''Connection refused''"


text \<open>
  Five orders on three days: one without a purchase timestamp, and on the last day one
  without an identifier. Their items, one of them without an identifier, and the frame
  the script makes of them: the revenue of the first day is the float 5.35, its
  \<open>avg_order_value\<close> the float 2.67.
\<close>

definition sample_order :: "string option \<Rightarrow> string \<Rightarrow> timestamp option \<Rightarrow> order" where
  "sample_order i st ts =
     \<lparr> order.order_id = i, order_status = st, order_purchase_timestamp = ts,
       order_delivered_customer_date = '''' \<rparr>"

definition sample_orders :: "order list" where
  "sample_orders =
     [sample_order (Some ''a'') ''delivered'' (Some (17171, 36000)),
      sample_order (Some ''z'') ''delivered'' None,
      sample_order (Some ''b'') ''canceled'' (Some (17174, 100)),
      sample_order (Some ''c'') ''delivered'' (Some (17171, 72000)),
      sample_order None ''delivered'' (Some (17175, 500))]"

definition sample_items :: "item list" where
  "sample_items =
     [\<lparr> item.order_id = Some ''a'', price = Some 5, freight_value = Some 0.35 \<rparr>,
      \<lparr> item.order_id = Some ''b'', price = Some 5, freight_value = None \<rparr>,
      \<lparr> item.order_id = Some ''q'', price = Some 7, freight_value = Some 1 \<rparr>,
      \<lparr> item.order_id = None, price = Some 5, freight_value = None \<rparr>]"

definition sample_frame :: frame where
  "sample_frame =
     \<lparr> cols = [''date'', ''orders_count'', ''revenue'', ''canceled_orders'', ''avg_order_value''],
       data =
         [\<lparr> frame_row.date = 17171, orders_count = Some 2, canceled_orders = Some 0,
            revenue_items = Some (3011782250804019 / 562949953421312),
            revenue_payments = None,
            revenue = Some (3011782250804019 / 562949953421312),
            avg_order_value = Finite (1503076375634903 / 562949953421312) \<rparr>,
          \<lparr> frame_row.date = 17172, orders_count = Some 0, canceled_orders = Some 0,
            revenue_items = Some 0, revenue_payments = None, revenue = Some 0,
            avg_order_value = Finite 0 \<rparr>,
          \<lparr> frame_row.date = 17173, orders_count = Some 0, canceled_orders = Some 0,
            revenue_items = Some 0, revenue_payments = None, revenue = Some 0,
            avg_order_value = Finite 0 \<rparr>,
          \<lparr> frame_row.date = 17174, orders_count = Some 1, canceled_orders = Some 1,
            revenue_items = Some 5, revenue_payments = None, revenue = Some 5,
            avg_order_value = Finite 5 \<rparr>,
          \<lparr> frame_row.date = 17175, orders_count = Some 0, canceled_orders = Some 0,
            revenue_items = Some 5, revenue_payments = None, revenue = Some 5,
            avg_order_value = Finite 0 \<rparr>] \<rparr>"

section \<open>Properties\<close>

text \<open>
  The definitions that evaluate the rounding to binary64 on a numeral, and six
  computations with the results that Python gives: the float 0.15,
  \<open>(5.95 - 7.0) / 7.0 = -0.14999999999999997\<close>,
  \<open>(0.9 - 1.2) / 1.2 = -0.24999999999999994\<close>, \<open>round(1.15 / 2, 2) = 0.57\<close>,
  \<open>round((17.0 - 40.0) / 40.0 * 100) = -57\<close> and \<open>0.1 + 0.2 = 0.30000000000000004\<close>.
\<close>

lemmas double_eval = to_double_def binade_def bit_length.simps pow2_def py_round_def

lemma float_samples:
  "to_double 0.15 = 5404319552844595 / 36028797018963968"
  "fdiv (fsub (py_float 5.95) 7) 7 = - (2702159776422297 / 18014398509481984)"
  "fdiv (fsub (py_float 0.9) (py_float 1.2)) (py_float 1.2)
     = - (4503599627370495 / 18014398509481984)"
  "round2 (fdiv (py_float 1.15) 2) = py_float 0.57"
  "py_round (fmul (fdiv (fsub 17 40) 40) 100) = - 57"
  "fadd (py_float 0.1) (py_float 0.2) = 1351079888211149 / 4503599627370496"
  by (simp_all add: py_float_def fsub_def fdiv_def fmul_def fadd_def round2_def double_eval)

subsection \<open>The percentage change\<close>

lemma pct_change_Inr:
  "pct_change today baseline =
     Inr (case baseline of
            None \<Rightarrow> Some 0
          | Some b \<Rightarrow> if b = 0 then Some 0
                       else (case today of None \<Rightarrow> None | Some t \<Rightarrow> Some (fdiv (fsub t b) b)))"
  by (simp add: pct_change_def py_truediv_def py_sub_def split: option.splits)

text \<open>
  C4. \<open>pct_change\<close> gives 0 when the baseline is zero or NaN and
  \<open>(today - baseline) / baseline\<close> otherwise, the difference and the quotient being those
  of floats (NaN when \<open>today\<close> is NaN). The division is reached with a non-zero divisor
  only, so no call raises: the result is never an error, ZeroDivisionError included.
\<close>

theorem pct_change_total:
  "(baseline = Some 0 \<or> baseline = None \<longrightarrow> pct_change today baseline = Inr (Some 0))
   \<and> (\<forall>b. baseline = Some b \<and> b \<noteq> 0 \<longrightarrow>
          pct_change today baseline = Inr (map_option (\<lambda>t. fdiv (fsub t b) b) today)
          \<and> py_truediv (py_sub today baseline) baseline
              = Inr (map_option (\<lambda>t. fdiv (fsub t b) b) today))
   \<and> (\<forall>e. pct_change today baseline \<noteq> Inl e)"
  by (auto simp add: pct_change_def py_truediv_def py_sub_def split: option.splits)

theorem pct_change_total_witness:
  "pct_change (Some 80) (Some 0) = Inr (Some 0)
   \<and> pct_change (Some 80) None = Inr (Some 0)
   \<and> pct_change (Some 80) (Some 100) = Inr (Some (- (3602879701896397 / 18014398509481984)))
   \<and> pct_change None (Some 100) = Inr None
   \<and> pct_change (Some 80) (Some 0) \<noteq> Inl ZeroDivisionError"
proof -
  have d: "fdiv (fsub 80 100) 100 = - (3602879701896397 / 18014398509481984)"
    by (simp add: fdiv_def fsub_def double_eval)
  show ?thesis
    using pct_change_total [of "Some 0" "Some 80"] pct_change_total [of None "Some 80"]
      pct_change_total [of "Some 100" "Some 80"] pct_change_total [of "Some 100" None]
    by (simp add: d)
qed

subsection \<open>The classifier\<close>

lemma classify_Inr:
  "classify row =
     Inr (revenue_signals (projr (pct_change (Some (py_float (revenue row)))
                                    (map_option py_float (base_revenue row))))
          @ orders_signals (projr (pct_change (Some (py_float (orders_count row)))
                                     (map_option py_float (base_orders_count row))))
          @ aov_signals (projr (pct_change (Some (py_float (avg_order_value row)))
                                  (map_option py_float (base_avg_order_value row))))
          @ cancel_signals (projr (pct_change (Some (py_float (canceled_orders row)))
                                     (map_option py_float (base_canceled_orders row)))))"
  by (simp add: classify_def pct_change_Inr)

lemma other_signals_not_revenue:
  "filter (\<lambda>s. metric s = ''revenue'') (orders_signals c) = []"
  "filter (\<lambda>s. metric s = ''revenue'') (aov_signals c) = []"
  "filter (\<lambda>s. metric s = ''revenue'') (cancel_signals c) = []"
  by (simp_all add: orders_signals_def aov_signals_def cancel_signals_def)

lemma str_nat_ROLLING_DAYS: "str_nat ROLLING_DAYS = ''7''"
  by (simp add: ROLLING_DAYS_def str_nat.simps digit_char_def)

subsection \<open>The baseline\<close>

lemma shift1_nth:
  "i < length ys \<Longrightarrow> shift1 ys ! i = (if i = 0 then None else ys ! (i - 1))"
  by (cases i) (auto simp: shift1_def nth_butlast)

lemma length_rolling_mean [simp]: "length (rolling_mean w xs) = length xs"
  by (simp add: rolling_mean_def)

lemma rolling_mean_nth:
  "i < length xs \<Longrightarrow>
     rolling_mean w xs ! i =
       (if w \<le> i + 1 then Some (sum_list (take w (drop (i + 1 - w) xs)) / real w) else None)"
  by (simp add: rolling_mean_def)

lemma length_base_column [simp]: "length (base_column col df) = length df"
  by (cases df) (simp_all add: base_column_def shift1_def rolling_mean_def)

lemma base_column_nth:
  assumes "i < length df"
  shows "base_column col df ! i =
     (if ROLLING_DAYS \<le> i
      then Some (sum_list (take ROLLING_DAYS (drop (i - ROLLING_DAYS) (map col df)))
                 / real ROLLING_DAYS)
      else None)"
proof (cases i)
  case 0
  then show ?thesis using assms by (simp add: base_column_def shift1_nth ROLLING_DAYS_def)
next
  case (Suc k)
  then show ?thesis using assms
    by (simp add: base_column_def shift1_nth rolling_mean_nth)
qed

lemma window_sum:
  assumes "w \<le> i" and "i \<le> length xs"
  shows "sum_list (take w (drop (i - w) xs))
    = sum_list (map (\<lambda>j. xs ! (i - j)) [1..<Suc w] :: real list)"
proof -
  have a: "take w (drop (i - w) xs) = map (\<lambda>k. xs ! (i - w + k)) [0..<w]"
    using assms by (intro nth_equalityI) auto
  have b: "map (\<lambda>j. xs ! (i - j)) [1..<Suc w] = rev (map (\<lambda>k. xs ! (i - w + k)) [0..<w])"
    using assms by (intro nth_equalityI) (auto simp: rev_nth nth_append)
  show ?thesis unfolding a b by (simp only: sum_list_rev)
qed

lemma consecutive_days_nth:
  assumes "consecutive_days df" and "i < length df" and "k < length df"
  shows "date (df ! k) = Some (the (date (df ! i)) + int k - int i)"
proof -
  obtain r rs where df: "df = r # rs" using assms(2) by (cases df) auto
  from assms(1) df obtain d0 where
    m: "map date df = map (\<lambda>i. Some (d0 + int i)) [0..<length df]"
    by (auto simp: consecutive_days_def split: option.splits)
  have "date (df ! n) = Some (d0 + int n)" if "n < length df" for n
  proof -
    have "map date df ! n = map (\<lambda>i. Some (d0 + int i)) [0..<length df] ! n" using m by simp
    then show ?thesis using that by simp
  qed
  then show ?thesis using assms by simp
qed

lemma value_on_consecutive:
  assumes "consecutive_days df" and "i < length df" and "date (df ! i) = Some D" and "j \<le> i"
  shows "value_on col df (D - int j) = Some (col (df ! (i - j)))"
proof -
  have d: "date (df ! k) = Some (D + int k - int i)" if "k < length df" for k
    using consecutive_days_nth [OF assms(1,2) that] assms(3) by simp
  have "find (\<lambda>r. date r = Some (D - int j)) df = Some (df ! (i - j))"
    unfolding find_Some_iff
  proof (intro exI [of _ "i - j"] conjI allI impI)
    show "i - j < length df" using assms by simp
    show "date (df ! (i - j)) = Some (D - int j)" using d [of "i - j"] assms by simp
    show "df ! (i - j) = df ! (i - j)" ..
    fix k assume "k < i - j"
    then show "date (df ! k) \<noteq> Some (D - int j)" using d [of k] assms by simp
  qed
  then show ?thesis by (simp add: value_on_def)
qed

lemma base_column_window_mean:
  assumes "consecutive_days df" and "i < length df" and "date (df ! i) = Some D"
    and "ROLLING_DAYS \<le> i"
  shows "base_column col df ! i = Some (window_mean col df D)"
proof -
  have "sum_list (take ROLLING_DAYS (drop (i - ROLLING_DAYS) (map col df)))
      = sum_list (map (\<lambda>j. map col df ! (i - j)) [1..<Suc ROLLING_DAYS])"
    using assms by (intro window_sum) auto
  also have "map (\<lambda>j. map col df ! (i - j)) [1..<Suc ROLLING_DAYS]
      = map (\<lambda>j. the (value_on col df (D - int j))) [1..<Suc ROLLING_DAYS]"
  proof (rule map_cong [OF refl])
    fix j assume "j \<in> set [1..<Suc ROLLING_DAYS]"
    then have "j \<le> i" using assms(4) by auto
    then show "map col df ! (i - j) = the (value_on col df (D - int j))"
      using value_on_consecutive [OF assms(1-3), of j col] assms(2) by simp
  qed
  finally show ?thesis using assms by (simp add: base_column_nth window_mean_def)
qed

lemma base_column_update_self:
  assumes "i < length df"
  shows "base_column col (df[i := r]) ! i = base_column col df ! i"
proof -
  have "take ROLLING_DAYS (drop (i - ROLLING_DAYS) (map col (df[i := r])))
      = take ROLLING_DAYS (drop (i - ROLLING_DAYS) (map col df))" if "ROLLING_DAYS \<le> i"
    using that assms by (intro nth_equalityI) (auto simp: nth_list_update)
  then show ?thesis using assms by (simp add: base_column_nth)
qed

lemma sort_sample_rows: "sort_values sample_rows = sample_rows"
  by (simp add: sort_values_def sample_rows_def sample_day_def)

lemma consecutive_sample_rows: "consecutive_days sample_rows"
  by (simp add: consecutive_days_def sample_rows_def sample_day_def upt_rec_numeral)

text \<open>
  C1. Let \<open>df\<close> be a table in date order whose rows are consecutive calendar days, and
  let row \<open>i\<close> be day \<open>D\<close>. Each of the four \<open>base_\<close> columns that \<open>main\<close> adds is the
  shifted rolling mean of its metric; for every metric it is NaN on the first
  \<open>ROLLING_DAYS\<close> rows and, from then on, the mean of the metric over the days
  \<open>D - ROLLING_DAYS\<close> to \<open>D - 1\<close>. The value of day \<open>D\<close> does not enter it: replacing
  row \<open>i\<close> by any other row leaves the baseline of row \<open>i\<close> as it was.
\<close>

theorem baseline_excludes_own_day:
  assumes "df = sort_values tbl" and "consecutive_days df"
    and "i < length df" and "date (df ! i) = Some D"
  shows "base_orders_count (add_baselines df ! i) = base_column orders_count df ! i
     \<and> base_revenue (add_baselines df ! i) = base_column revenue df ! i
     \<and> base_canceled_orders (add_baselines df ! i) = base_column canceled_orders df ! i
     \<and> base_avg_order_value (add_baselines df ! i) = base_column avg_order_value df ! i
     \<and> (\<forall>col. base_column col df ! i
            = (if i < ROLLING_DAYS then None else Some (window_mean col df D)))
     \<and> (\<forall>col r. base_column col (df[i := r]) ! i = base_column col df ! i)"
proof -
  have "base_column col df ! i = (if i < ROLLING_DAYS then None else Some (window_mean col df D))"
    for col
  proof (cases "i < ROLLING_DAYS")
    case True
    then show ?thesis using assms(3) by (simp add: base_column_nth)
  next
    case False
    then show ?thesis using base_column_window_mean [OF assms(2-4), of col] by simp
  qed
  moreover have "base_column col (df[i := r]) ! i = base_column col df ! i" for col r
    using assms(3) by (rule base_column_update_self)
  ultimately show ?thesis using assms(3) by (simp add: add_baselines_def)
qed

theorem baseline_excludes_own_day_witness:
  "sample_rows = sort_values sample_rows \<and> consecutive_days sample_rows
   \<and> 7 < length sample_rows \<and> date (sample_rows ! 7) = Some 17178
   \<and> base_revenue (add_baselines sample_rows ! 7) = Some 1000
   \<and> base_revenue (add_baselines (sample_rows[7 := sample_day 17178 1 1000000]) ! 7) = Some 1000
   \<and> base_revenue (add_baselines sample_rows ! 6) = None"
proof -
  have l: "7 < length sample_rows" "6 < length sample_rows" by (simp_all add: sample_rows_def)
  have d: "date (sample_rows ! 7) = Some 17178" "date (sample_rows ! 6) = Some 17177"
    by (simp_all add: sample_rows_def sample_day_def)
  have w: "window_mean revenue sample_rows 17178 = 1000"
    by (simp add: window_mean_def value_on_def ROLLING_DAYS_def sample_rows_def sample_day_def
        upt_conv_Cons)
  have u: "base_revenue (add_baselines (sample_rows[7 := sample_day 17178 1 1000000]) ! 7)
      = base_column revenue (sample_rows[7 := sample_day 17178 1 1000000]) ! 7"
    using l by (simp add: add_baselines_def)
  show ?thesis
    using baseline_excludes_own_day [OF sort_sample_rows [symmetric] consecutive_sample_rows l(1) d(1)]
      baseline_excludes_own_day [OF sort_sample_rows [symmetric] consecutive_sample_rows l(2) d(2)]
      sort_sample_rows consecutive_sample_rows l d
    by (simp add: w u ROLLING_DAYS_def)
qed

subsection \<open>Runs of main\<close>

lemma load_candidates_Csv:
  "load_candidates (Csv t) =
     (if \<not> set required \<subseteq> set (columns t)
      then Inl (ValueError ''daily_ops_metrics.csv missing columns'')
      else if eligible t = []
      then Inl (ValueError ''No candidate rows after SIM_START_DATE. Check SIM_START_DATE or data coverage.'')
      else Inr (eligible t))"
  by (simp add: load_candidates_def eligible_def Let_def)

lemma load_candidates_Inr:
  assumes "load_candidates f = Inr cs"
  shows "cs \<noteq> []" and "\<forall>r \<in> set cs. daily_row.date r \<noteq> None"
proof -
  obtain t where f: "f = Csv t" using assms by (cases f) (auto simp: load_candidates_def)
  have cs: "cs = eligible t" "eligible t \<noteq> []"
    using assms unfolding f load_candidates_Csv by (auto split: if_splits)
  show "cs \<noteq> []" using cs by simp
  show "\<forall>r \<in> set cs. daily_row.date r \<noteq> None"
    unfolding cs eligible_def by (auto simp: on_or_after_def split: option.splits)
qed

lemma evaluate_render:
  assumes "iloc cs c = Inr row" and "daily_row.date row \<noteq> None"
  shows "evaluate cs c now = Inr (render row c now)"
  using assms by (auto simp: evaluate_def render_def classify_Inr)

lemma iloc_in_range:
  assumes "0 \<le> c" and "c < int (length cs)"
  shows "iloc cs c = Inr (cs ! nat c)"
  using assms by (simp add: iloc_def)

lemma wrap_cursor_range:
  assumes "0 \<le> c" and "n \<noteq> 0"
  shows "0 \<le> wrap_cursor c n" and "wrap_cursor c n < int n"
  using assms by (auto simp: wrap_cursor_def)

lemma valid_state_stored: "valid_state sf \<Longrightarrow> 0 \<le> stored_cursor sf"
  by (auto simp: valid_state_def stored_cursor_def cursor_of_def load_state_def
      split: option.splits)

lemma main_unfold:
  assumes "load_candidates f = Inr cs"
  shows "main f sf now post =
     (case evaluate cs (wrap_cursor (stored_cursor sf) (length cs)) now of
        Inl e \<Rightarrow> (Inl e, sf)
      | Inr p \<Rightarrow>
          (Inr \<lparr> sent = p, stdout = [Payload_json p, push post p] \<rparr>,
           Some ((load_state sf)(''cursor'' \<mapsto> wrap_cursor (stored_cursor sf) (length cs) + 1))))"
  using assms
  by (simp add: main_def Let_def stored_cursor_def save_state_def split: sum.splits)

lemma main_completes:
  assumes "load_candidates f = Inr cs" and "0 \<le> stored_cursor sf"
    and "c = wrap_cursor (stored_cursor sf) (length cs)"
  shows "main f sf now post =
     (Inr \<lparr> sent = render (cs ! nat c) c now,
            stdout = [Payload_json (render (cs ! nat c) c now),
                      push post (render (cs ! nat c) c now)] \<rparr>,
      Some ((load_state sf)(''cursor'' \<mapsto> c + 1)))"
proof -
  have ne: "length cs \<noteq> 0" using load_candidates_Inr(1) [OF assms(1)] by simp
  have r: "0 \<le> c" "c < int (length cs)"
    using wrap_cursor_range [OF assms(2) ne] assms(3) by simp_all
  then have "nat c < length cs" by simp
  then have "daily_row.date (cs ! nat c) \<noteq> None"
    using load_candidates_Inr(2) [OF assms(1)] by simp
  then have "evaluate cs c now = Inr (render (cs ! nat c) c now)"
    using iloc_in_range [OF r] by (intro evaluate_render)
  then show ?thesis unfolding main_unfold [OF assms(1)] assms(3) [symmetric] by simp
qed

lemma main_error_keeps_state:
  "fst (main f sf now post) = Inl e \<Longrightarrow> snd (main f sf now post) = sf"
  by (auto simp: main_def Let_def split: sum.splits)

lemma eligible_sample_a: "eligible sample_table = sample_candidates"
  by (simp add: eligible_def sample_table_def sort_sample_rows)
     (simp add: sample_rows_def sample_day_def add_baselines_def base_column_def shift1_def
        rolling_mean_def ROLLING_DAYS_def dropna_def on_or_after_def SIM_START_DATE_def
        sample_candidates_def sample_candidate_def upt_conv_Cons del: not_None_eq)


lemma load_sample: "load_candidates (Csv sample_table) = Inr sample_candidates"
  using eligible_sample_a
  by (simp add: load_candidates_Csv sample_table_def sample_candidates_def)

lemma strftime_17178: "strftime 17178 = ''2017-01-12''"
  by code_simp

lemma valid_state_None: "valid_state None"
  by (simp add: valid_state_def cursor_of_def)

lemma main_keeps_valid:
  assumes "valid_state sf"
  shows "valid_state (snd (main f sf now post))"
proof (cases "load_candidates f")
  case (Inl e)
  then show ?thesis using assms by (simp add: main_def)
next
  case (Inr cs)
  have ne: "length cs \<noteq> 0" using load_candidates_Inr(1) [OF Inr] by simp
  have "0 \<le> wrap_cursor (stored_cursor sf) (length cs)"
    using wrap_cursor_range(1) [OF valid_state_stored [OF assms] ne] .
  then show ?thesis
    unfolding main_completes [OF Inr valid_state_stored [OF assms] refl]
    by (simp add: valid_state_def cursor_of_def)
qed

lemma replay_valid: "valid_state sf \<Longrightarrow> valid_state (replay runs sf)"
  by (induction runs sf rule: replay.induct) (simp_all add: main_keeps_valid)

text \<open>
  C6. When \<open>main\<close> has loaded its candidate rows (there is at least one, or it has
  raised before) and the state file holds a cursor \<open>c\<close> that is not below their number,
  the cursor is reset to 0, the row taken is the first candidate and not a position out of
  range, and the run completes: its payload is that of the first candidate, with
  \<open>sim_cursor = 0\<close>, and the state file it leaves holds the cursor 1.
\<close>
theorem cursor_wraps_to_first_day:
  assumes "load_candidates f = Inr cs"
    and "cursor_of sf = Some c" and "int (length cs) \<le> c"
  shows "cs \<noteq> []
     \<and> iloc cs (wrap_cursor c (length cs)) = Inr (cs ! 0)
     \<and> (\<exists>r sf'. main f sf now post = (Inr r, sf')
           \<and> sent r = render (cs ! 0) 0 now
           \<and> sim_cursor (sent r) = 0
           \<and> (\<exists>d. daily_row.date (cs ! 0) = Some d \<and> payload.date (sent r) = strftime d)
           \<and> cursor_of sf' = Some 1)"
proof -
  have ne: "cs \<noteq> []" using load_candidates_Inr(1) [OF assms(1)] .
  have sc: "stored_cursor sf = c"
    using assms(2) by (auto simp: stored_cursor_def cursor_of_def load_state_def split: option.splits)
  have w: "wrap_cursor c (length cs) = 0" using assms(3) by (simp add: wrap_cursor_def)
  have c0: "0 \<le> stored_cursor sf" using sc assms(3) by simp
  have d: "daily_row.date (cs ! 0) \<noteq> None"
    using load_candidates_Inr(2) [OF assms(1)] ne by (cases cs) auto
  have m: "main f sf now post =
     (Inr \<lparr> sent = render (cs ! 0) 0 now,
            stdout = [Payload_json (render (cs ! 0) 0 now), push post (render (cs ! 0) 0 now)] \<rparr>,
      Some ((load_state sf)(''cursor'' \<mapsto> 1)))"
    using main_completes [OF assms(1) c0, of 0 now post] sc w by simp
  show ?thesis
    using ne d by (auto simp: m w iloc_def render_def cursor_of_def)
qed

theorem cursor_wraps_to_first_day_witness:
  "load_candidates (Csv sample_table) = Inr sample_candidates
   \<and> cursor_of (Some [''cursor'' \<mapsto> 2]) = Some 2 \<and> int (length sample_candidates) \<le> 2
   \<and> (\<exists>r sf'. main (Csv sample_table) (Some [''cursor'' \<mapsto> 2]) ''2017-01-14T09:00:00'' sample_post
                 = (Inr r, sf')
         \<and> sim_cursor (sent r) = 0 \<and> payload.date (sent r) = ''2017-01-12''
         \<and> cursor_of sf' = Some 1)"
proof -
  have c: "cursor_of (Some [''cursor'' \<mapsto> 2]) = Some 2" by (simp add: cursor_of_def)
  have l: "int (length sample_candidates) \<le> 2" by (simp add: sample_candidates_def)
  have d: "daily_row.date (sample_candidates ! 0) = Some 17178"
    by (simp add: sample_candidates_def sample_candidate_def)
  show ?thesis
    using cursor_wraps_to_first_day [OF load_sample c l, of "''2017-01-14T09:00:00''" sample_post]
      load_sample c l
    by (auto simp: d strftime_17178)
qed

text \<open>
  C7. What the webhook does never changes what \<open>main\<close> raises or the state file it
  leaves: two runs that differ in the webhook alone leave the same state file and fail
  alike. A run that completes has written the cursor it used plus 1, whatever the POST
  did; an exception of the POST is printed, not raised. With candidate rows loaded and a
  state file of the data model, the run completes and writes that cursor.
\<close>
theorem delivery_never_blocks_cursor:
  "snd (main f sf now post) = snd (main f sf now post')
   \<and> (\<forall>e. fst (main f sf now post) = Inl e \<longleftrightarrow> fst (main f sf now post') = Inl e)
   \<and> (\<forall>r. fst (main f sf now post) = Inr r \<longrightarrow>
          cursor_of (snd (main f sf now post)) = Some (sim_cursor (sent r) + 1)
          \<and> stdout r = [Payload_json (sent r), push post (sent r)]
          \<and> (\<forall>msg. post (sent r) = Raised msg \<longrightarrow> push post (sent r) = Webhook_failed msg))
   \<and> (\<forall>cs. load_candidates f = Inr cs \<and> valid_state sf \<longrightarrow>
          (\<exists>r. main f sf now post
                  = (Inr r, Some ((load_state sf)(''cursor'' \<mapsto> sim_cursor (sent r) + 1)))
              \<and> sim_cursor (sent r) = wrap_cursor (stored_cursor sf) (length cs)))"
proof (cases "load_candidates f")
  case (Inl e)
  then show ?thesis by (simp add: main_def)
next
  case (Inr cs)
  show ?thesis
  proof (cases "evaluate cs (wrap_cursor (stored_cursor sf) (length cs)) now")
    case (Inl e)
    have "\<not> valid_state sf"
    proof
      assume v: "valid_state sf"
      show False
        using main_completes [OF Inr valid_state_stored [OF v] refl, of now post] Inl
        by (simp add: main_unfold [OF Inr])
    qed
    then show ?thesis using Inl Inr by (simp add: main_unfold [OF Inr])
  next
    case r: (Inr p)
    have sc: "sim_cursor p = wrap_cursor (stored_cursor sf) (length cs)"
      using r by (auto simp: evaluate_def split: sum.splits option.splits)
    show ?thesis using r Inr
      by (simp add: main_unfold [OF Inr] cursor_of_def sc push_def)
  qed
qed

theorem delivery_never_blocks_cursor_witness:
  "load_candidates (Csv sample_table) = Inr sample_candidates \<and> valid_state None
   \<and> sample_post (render sample_candidate 0 ''2017-01-12T09:00:00'') = Raised ''Connection refused''
   \<and> (\<exists>r. main (Csv sample_table) None ''2017-01-12T09:00:00'' sample_post
             = (Inr r, Some [''cursor'' \<mapsto> 1])
         \<and> sim_cursor (sent r) = 0
         \<and> stdout r = [Payload_json (sent r), Webhook_failed ''Connection refused''])
   \<and> snd (main (Csv sample_table) None ''2017-01-12T09:00:00'' sample_post)
       = snd (main (Csv sample_table) None ''2017-01-12T09:00:00'' (\<lambda>p. Response 200))"
proof -
  have s: "stored_cursor None = 0" by (simp add: stored_cursor_def load_state_def)
  have w: "wrap_cursor 0 (length sample_candidates) = 0" by (simp add: wrap_cursor_def)
  have p: "sample_post q = Raised ''Connection refused''" for q by (simp add: sample_post_def)
  show ?thesis
    using delivery_never_blocks_cursor
      [of "Csv sample_table" None "''2017-01-12T09:00:00''" sample_post "\<lambda>p. Response 200"]
      load_sample valid_state_None
    by (auto simp: s w p load_state_def)
qed

lemma evaluate_clock:
  assumes "evaluate cs c now1 = Inr p"
  shows "evaluate cs c now2 = Inr (p\<lparr>run_time := now2\<rparr>)" and "run_time p = now1"
  using assms by (auto simp: evaluate_def split: sum.splits option.splits)

text \<open>
  C8, as stated, fails: two runs on the same table from the same state file (the first
  one did not write its cursor), five seconds apart, both complete, and their payloads
  differ.
\<close>
theorem rerun_payload_identical_counterexample:
  "\<not> isl (fst (main (Csv sample_table) None ''2017-01-12T09:00:00'' sample_post))
   \<and> \<not> isl (fst (main (Csv sample_table) None ''2017-01-12T09:00:05'' sample_post))
   \<and> sent (projr (fst (main (Csv sample_table) None ''2017-01-12T09:00:00'' sample_post)))
       \<noteq> sent (projr (fst (main (Csv sample_table) None ''2017-01-12T09:00:05'' sample_post)))"
proof -
  have s: "0 \<le> stored_cursor None" by (simp add: stored_cursor_def load_state_def)
  show ?thesis
    by (simp add: main_completes [OF load_sample s refl] render_def)
qed

text \<open>
  C8, amended. When a run from a state file gives a payload and its cursor is not written,
  the next run on the same data gives a payload for the same cursor and the same day that
  is equal in every field but \<open>run_time\<close>, which is the clock reading of each run; the two
  payloads are equal when both runs read the same second.
\<close>
theorem rerun_differs_in_run_time_only:
  assumes "fst (main f sf now1 post1) = Inr r1"
  shows "\<exists>r2. fst (main f sf now2 post2) = Inr r2
     \<and> sent r2 = (sent r1)\<lparr>run_time := now2\<rparr>
     \<and> run_time (sent r1) = now1
     \<and> sim_cursor (sent r2) = sim_cursor (sent r1)
     \<and> payload.date (sent r2) = payload.date (sent r1)
     \<and> (now2 = now1 \<longrightarrow> sent r2 = sent r1)"
proof (cases "load_candidates f")
  case (Inl e)
  then show ?thesis using assms by (simp add: main_def)
next
  case (Inr cs)
  obtain p where p: "evaluate cs (wrap_cursor (stored_cursor sf) (length cs)) now1 = Inr p"
    and r1: "sent r1 = p"
    using assms by (auto simp: main_unfold [OF Inr] split: sum.splits)
  note e = evaluate_clock(1) [OF p, of now2] evaluate_clock(2) [OF p]
  have "fst (main f sf now2 post2)
      = Inr \<lparr> sent = p\<lparr>run_time := now2\<rparr>,
              stdout = [Payload_json (p\<lparr>run_time := now2\<rparr>), push post2 (p\<lparr>run_time := now2\<rparr>)] \<rparr>"
    by (simp add: main_unfold [OF Inr] e(1))
  then show ?thesis using r1 e(2) by auto
qed

theorem rerun_differs_in_run_time_only_witness:
  "(\<exists>r1. fst (main (Csv sample_table) None ''2017-01-12T09:00:00'' sample_post) = Inr r1
      \<and> (\<exists>r2. fst (main (Csv sample_table) None ''2017-01-12T09:00:05'' sample_post) = Inr r2
            \<and> sent r2 = (sent r1)\<lparr>run_time := ''2017-01-12T09:00:05''\<rparr>
            \<and> payload.date (sent r2) = payload.date (sent r1)))"
proof -
  have s: "0 \<le> stored_cursor None" by (simp add: stored_cursor_def load_state_def)
  have m: "fst (main (Csv sample_table) None ''2017-01-12T09:00:00'' sample_post)
      = Inr \<lparr> sent = render (sample_candidates ! 0) 0 ''2017-01-12T09:00:00'',
              stdout = [Payload_json (render (sample_candidates ! 0) 0 ''2017-01-12T09:00:00''),
                        push sample_post (render (sample_candidates ! 0) 0 ''2017-01-12T09:00:00'')] \<rparr>"
    using main_completes [OF load_sample s refl, of "''2017-01-12T09:00:00''" sample_post]
    by (simp add: stored_cursor_def load_state_def wrap_cursor_def)
  show ?thesis
    using rerun_differs_in_run_time_only [OF m, of "''2017-01-12T09:00:05''" sample_post] m
    by auto
qed

lemma eligible_short_table: "eligible short_table = []"
  by (simp add: eligible_def short_table_def sample_rows_def sample_day_def sort_values_def
      add_baselines_def base_column_def shift1_def rolling_mean_def ROLLING_DAYS_def dropna_def
      upt_conv_Cons del: not_None_eq)

text \<open>
  C9. A missing data file, a data file that cannot be read, a header without the required
  columns and a table without an eligible day each make \<open>main\<close> raise and leave the state
  file as it was; so does every other error \<open>main\<close> raises.
\<close>
theorem fatal_errors_keep_state:
  "(f = Missing \<longrightarrow> main f sf now post = (Inl (FileNotFoundError DATA_FILE), sf))
   \<and> (f = Unreadable \<longrightarrow> main f sf now post = (Inl ReadError, sf))
   \<and> (\<forall>t. f = Csv t \<and> \<not> set required \<subseteq> set (columns t) \<longrightarrow>
          main f sf now post = (Inl (ValueError ''daily_ops_metrics.csv missing columns''), sf))
   \<and> (\<forall>t. f = Csv t \<and> set required \<subseteq> set (columns t) \<and> eligible t = [] \<longrightarrow>
          main f sf now post
            = (Inl (ValueError ''No candidate rows after SIM_START_DATE. Check SIM_START_DATE or data coverage.''), sf))
   \<and> (\<forall>e. fst (main f sf now post) = Inl e \<longrightarrow> snd (main f sf now post) = sf)"
proof (intro conjI allI impI)
  show "main f sf now post = (Inl (FileNotFoundError DATA_FILE), sf)" if "f = Missing"
    using that by (simp add: main_def load_candidates_def)
  show "main f sf now post = (Inl ReadError, sf)" if "f = Unreadable"
    using that by (simp add: main_def load_candidates_def)
  show "main f sf now post = (Inl (ValueError ''daily_ops_metrics.csv missing columns''), sf)"
    if "f = Csv t \<and> \<not> set required \<subseteq> set (columns t)" for t
    using that by (simp add: main_def load_candidates_Csv)
  show "main f sf now post
      = (Inl (ValueError ''No candidate rows after SIM_START_DATE. Check SIM_START_DATE or data coverage.''), sf)"
    if "f = Csv t \<and> set required \<subseteq> set (columns t) \<and> eligible t = []" for t
    using that by (simp add: main_def load_candidates_Csv)
  show "snd (main f sf now post) = sf" if "fst (main f sf now post) = Inl e" for e
    using that by (rule main_error_keeps_state)
qed

theorem fatal_errors_keep_state_witness:
  "main Missing (Some [''cursor'' \<mapsto> 5]) ''2017-01-12T09:00:00'' sample_post
     = (Inl (FileNotFoundError DATA_FILE), Some [''cursor'' \<mapsto> 5])
   \<and> main Unreadable (Some [''cursor'' \<mapsto> 5]) ''2017-01-12T09:00:00'' sample_post
     = (Inl ReadError, Some [''cursor'' \<mapsto> 5])
   \<and> \<not> set required \<subseteq> set (columns no_columns_table)
   \<and> main (Csv no_columns_table) (Some [''cursor'' \<mapsto> 5]) ''2017-01-12T09:00:00'' sample_post
     = (Inl (ValueError ''daily_ops_metrics.csv missing columns''), Some [''cursor'' \<mapsto> 5])
   \<and> set required \<subseteq> set (columns short_table) \<and> eligible short_table = []
   \<and> main (Csv short_table) (Some [''cursor'' \<mapsto> 5]) ''2017-01-12T09:00:00'' sample_post
     = (Inl (ValueError ''No candidate rows after SIM_START_DATE. Check SIM_START_DATE or data coverage.''),
        Some [''cursor'' \<mapsto> 5])
   \<and> snd (main (Csv short_table) (Some [''cursor'' \<mapsto> 5]) ''2017-01-12T09:00:00'' sample_post)
     = Some [''cursor'' \<mapsto> 5]"
proof -
  have a: "\<not> set required \<subseteq> set (columns no_columns_table)"
    by (simp add: no_columns_table_def required_def)
  have b: "set required \<subseteq> set (columns short_table)" by (simp add: short_table_def)
  show ?thesis
    using fatal_errors_keep_state [of Missing "Some [''cursor'' \<mapsto> 5]" "''2017-01-12T09:00:00''" sample_post]
      fatal_errors_keep_state [of Unreadable "Some [''cursor'' \<mapsto> 5]" "''2017-01-12T09:00:00''" sample_post]
      fatal_errors_keep_state [of "Csv no_columns_table" "Some [''cursor'' \<mapsto> 5]" "''2017-01-12T09:00:00''" sample_post]
      fatal_errors_keep_state [of "Csv short_table" "Some [''cursor'' \<mapsto> 5]" "''2017-01-12T09:00:00''" sample_post]
      a b eligible_short_table
    by simp
qed

text \<open>
  C10. After a run that completes from a state file of the data model, the state file
  holds the cursor used plus 1; the cursor used is not negative, so the cursor written
  is at least 1 and never 0, and the new state file is one of the data model again. The
  cursor used is below the number \<open>N\<close> of candidate rows; when it is \<open>N - 1\<close> the cursor
  written is \<open>N\<close>, and the next run on the same data resets it to 0 on loading.
\<close>
theorem persisted_cursor_at_least_one:
  assumes "valid_state sf" and "main f sf now post = (Inr r, sf')"
  shows "cursor_of sf' = Some (sim_cursor (sent r) + 1)
     \<and> 0 \<le> sim_cursor (sent r)
     \<and> cursor_of sf' \<noteq> Some 0
     \<and> (\<exists>c. cursor_of sf' = Some c \<and> 1 \<le> c)
     \<and> valid_state sf'
     \<and> (\<exists>cs. load_candidates f = Inr cs
           \<and> sim_cursor (sent r) = wrap_cursor (stored_cursor sf) (length cs)
           \<and> sim_cursor (sent r) < int (length cs)
           \<and> (sim_cursor (sent r) = int (length cs) - 1 \<longrightarrow>
                  cursor_of sf' = Some (int (length cs))
                  \<and> (\<forall>now' post'. \<exists>r' sf''. main f sf' now' post' = (Inr r', sf'')
                         \<and> sim_cursor (sent r') = 0 \<and> cursor_of sf'' = Some 1)))"
proof -
  obtain cs where cs: "load_candidates f = Inr cs"
    using assms(2) by (cases "load_candidates f") (auto simp: main_def)
  define c where "c = wrap_cursor (stored_cursor sf) (length cs)"
  have ne: "length cs \<noteq> 0" using load_candidates_Inr(1) [OF cs] by simp
  have s0: "0 \<le> stored_cursor sf" using assms(1) by (rule valid_state_stored)
  have c: "0 \<le> c" "c < int (length cs)"
    using wrap_cursor_range [OF s0 ne] by (simp_all add: c_def)
  have m: "main f sf now post =
      (Inr \<lparr> sent = render (cs ! nat c) c now,
             stdout = [Payload_json (render (cs ! nat c) c now),
                       push post (render (cs ! nat c) c now)] \<rparr>,
       Some ((load_state sf)(''cursor'' \<mapsto> c + 1)))"
    using main_completes [OF cs s0 c_def] .
  have r: "sim_cursor (sent r) = c" and sf': "sf' = Some ((load_state sf)(''cursor'' \<mapsto> c + 1))"
    using assms(2) unfolding m by (auto simp: render_def)
  have cur: "cursor_of sf' = Some (c + 1)" by (simp add: sf' cursor_of_def)
  have next_run: "\<exists>r' sf''. main f sf' now' post' = (Inr r', sf'')
        \<and> sim_cursor (sent r') = 0 \<and> cursor_of sf'' = Some 1"
    if "c = int (length cs) - 1" for now' post'
  proof -
    have st: "stored_cursor sf' = int (length cs)"
      using that by (simp add: sf' stored_cursor_def load_state_def)
    have w: "wrap_cursor (stored_cursor sf') (length cs) = 0"
      by (simp add: st wrap_cursor_def)
    have "0 \<le> stored_cursor sf'" by (simp add: st)
    from main_completes [OF cs this w [symmetric], of now' post']
    show ?thesis by (simp add: render_def cursor_of_def)
  qed
  show ?thesis
    using c cur r cs next_run by (auto simp: valid_state_def c_def)
qed

theorem persisted_cursor_at_least_one_witness:
  "valid_state (Some [''cursor'' \<mapsto> 1])
   \<and> (\<exists>r sf'. main (Csv sample_table) (Some [''cursor'' \<mapsto> 1]) ''2017-01-13T09:00:00'' sample_post
                 = (Inr r, sf')
         \<and> sim_cursor (sent r) = 1 \<and> cursor_of sf' = Some 2
         \<and> cursor_of sf' = Some (int (length sample_candidates))
         \<and> (\<exists>r' sf''. main (Csv sample_table) sf' ''2017-01-14T09:00:00'' sample_post = (Inr r', sf'')
                \<and> sim_cursor (sent r') = 0 \<and> cursor_of sf'' = Some 1))"
proof -
  have v: "valid_state (Some [''cursor'' \<mapsto> 1])" by (simp add: valid_state_def cursor_of_def)
  have s: "stored_cursor (Some [''cursor'' \<mapsto> 1]) = 1" by (simp add: stored_cursor_def load_state_def)
  have w: "wrap_cursor 1 (length sample_candidates) = 1"
    by (simp add: wrap_cursor_def sample_candidates_def)
  have l: "int (length sample_candidates) = 2" by (simp add: sample_candidates_def)
  obtain r sf' where m: "main (Csv sample_table) (Some [''cursor'' \<mapsto> 1]) ''2017-01-13T09:00:00'' sample_post
      = (Inr r, sf')"
    using main_completes [OF load_sample, of "Some [''cursor'' \<mapsto> 1]" 1 "''2017-01-13T09:00:00''" sample_post]
    by (simp add: s w)
  show ?thesis
    using persisted_cursor_at_least_one [OF v m] v m load_sample
    by (auto simp: s w l)
qed

subsection \<open>The revenue signal at its thresholds\<close>

lemma revenue_thresholds:
  "revenue_drop_medium = 5404319552844595 / 36028797018963968"
  "revenue_drop_high = 1 / 4"
  by (simp_all add: revenue_drop_medium_def revenue_drop_high_def double_eval)

lemma other_thresholds:
  "0 < orders_drop_medium" "0 < aov_drop_medium" "0 < cancel_spike_medium"
  "aov_drop_medium = 5404319552844595 / 36028797018963968" "aov_drop_high = 1 / 4"
  by (simp_all add: orders_drop_medium_def aov_drop_medium_def aov_drop_high_def
      cancel_spike_medium_def double_eval)

lemma eligible_boundary: "eligible (boundary_table b v) = [boundary_candidate b v]"
  by (simp add: eligible_def boundary_table_def boundary_day_def sort_values_def
      add_baselines_def base_column_def shift1_def rolling_mean_def ROLLING_DAYS_def
      dropna_def on_or_after_def SIM_START_DATE_def boundary_candidate_def upt_conv_Cons
      del: not_None_eq)

lemma load_boundary:
  "load_candidates (Csv (boundary_table b v)) = Inr [boundary_candidate b v]"
  by (simp add: load_candidates_Csv eligible_boundary) (simp add: boundary_table_def)

lemma boundary_changes:
  "py_float 0 = 0" "py_float 1 = 1" "py_float 7 = 7"
  "py_float (119 / 20) = 6699104445713613 / 1125899906842624"
  "fsub 1 1 = 0" "fdiv 0 1 = 0"
  "fdiv (fsub (6699104445713613 / 1125899906842624) 7) 7
     = - (2702159776422297 / 18014398509481984)"
  by (simp_all add: py_float_def fsub_def fdiv_def double_eval)

lemma boundary_changes_high:
  "py_float (9 / 10) = 8106479329266893 / 9007199254740992"
  "py_float (6 / 5) = 5404319552844595 / 4503599627370496"
  "fdiv (fsub (8106479329266893 / 9007199254740992) (5404319552844595 / 4503599627370496))
        (5404319552844595 / 4503599627370496)
     = - (4503599627370495 / 18014398509481984)"
  by (simp_all add: py_float_def fsub_def fdiv_def double_eval)

lemma classify_boundary: "classify (boundary_candidate 7 (119 / 20)) = Inr []"
  using other_thresholds(1-3)
  by (simp add: classify_Inr pct_change_Inr boundary_candidate_def boundary_changes
      revenue_signals_def orders_signals_def aov_signals_def cancel_signals_def
      py_le_def py_ge_def py_abs_def revenue_thresholds other_thresholds(4,5))

lemma classify_boundary_high:
  "map severity (filter (\<lambda>s. metric s = ''revenue'')
       (projr (classify (boundary_candidate (12 / 10) (9 / 10))))) = [''medium'']"
  by (simp add: classify_Inr pct_change_Inr boundary_candidate_def boundary_changes
      boundary_changes_high other_signals_not_revenue
      revenue_signals_def py_le_def py_ge_def py_abs_def revenue_thresholds)


text \<open>
  C5, as stated, fails. A table of seven days of revenue 7.00 and an eighth of revenue
  5.95, which is 15 per cent below their mean: the run on the eighth day emits no signal,
  because the change that floats give is -0.14999999999999997. And on a day of revenue
  0.90 against a baseline of 1.20, a drop of 25 per cent, the revenue signal is of
  severity medium: the change is -0.24999999999999994.
\<close>

theorem revenue_drop_severity_counterexample:
  "(119 / 20 - 7) / 7 = - (15 / 100 :: real)
   \<and> load_candidates (Csv (boundary_table 7 (119 / 20))) = Inr [boundary_candidate 7 (119 / 20)]
   \<and> revenue (boundary_candidate 7 (119 / 20)) = 119 / 20
   \<and> base_revenue (boundary_candidate 7 (119 / 20)) = Some 7
   \<and> classify (boundary_candidate 7 (119 / 20)) = Inr []
   \<and> \<not> isl (fst (main (Csv (boundary_table 7 (119 / 20))) None ''2017-01-12T09:00:00'' sample_post))
   \<and> signals (sent (projr (fst (main (Csv (boundary_table 7 (119 / 20))) None
                                     ''2017-01-12T09:00:00'' sample_post)))) = []
   \<and> (9 / 10 - 12 / 10) / (12 / 10) = - (25 / 100 :: real)
   \<and> revenue (boundary_candidate (12 / 10) (9 / 10)) = 9 / 10
   \<and> base_revenue (boundary_candidate (12 / 10) (9 / 10)) = Some (12 / 10)
   \<and> map severity (revenue_part (projr (classify (boundary_candidate (12 / 10) (9 / 10)))))
       = [''medium'']"
proof -
  have s: "0 \<le> stored_cursor None" by (simp add: stored_cursor_def load_state_def)
  have m: "fst (main (Csv (boundary_table 7 (119 / 20))) None ''2017-01-12T09:00:00'' sample_post)
      = Inr \<lparr> sent = render (boundary_candidate 7 (119 / 20)) 0 ''2017-01-12T09:00:00'',
              stdout = [Payload_json (render (boundary_candidate 7 (119 / 20)) 0 ''2017-01-12T09:00:00''),
                        push sample_post (render (boundary_candidate 7 (119 / 20)) 0 ''2017-01-12T09:00:00'')] \<rparr>"
    using main_completes [OF load_boundary s refl, of 7 "119 / 20" "''2017-01-12T09:00:00''" sample_post]
    by (simp add: stored_cursor_def load_state_def wrap_cursor_def)
  have a: "(119 / 20 - 7) / 7 = - (15 / 100 :: real)" "(9 / 10 - 12 / 10) / (12 / 10) = - (25 / 100 :: real)"
    by simp_all
  have b: "revenue (boundary_candidate 7 (119 / 20)) = 119 / 20"
    "base_revenue (boundary_candidate 7 (119 / 20)) = Some 7"
    "revenue (boundary_candidate (12 / 10) (9 / 10)) = 9 / 10"
    "base_revenue (boundary_candidate (12 / 10) (9 / 10)) = Some (12 / 10)"
    by (simp_all add: boundary_candidate_def)
  have sg: "signals (sent (projr (fst (main (Csv (boundary_table 7 (119 / 20))) None
                                     ''2017-01-12T09:00:00'' sample_post)))) = []"
    unfolding m by (simp add: render_def classify_boundary)
  have il: "\<not> isl (fst (main (Csv (boundary_table 7 (119 / 20))) None ''2017-01-12T09:00:00'' sample_post))"
    unfolding m by simp
  show ?thesis
    using a b load_boundary [of 7 "119 / 20"] classify_boundary sg il
      classify_boundary_high [folded revenue_part_def]
    by (intro conjI)
qed

text \<open>
  C5, amended. On a row whose revenue baseline, as a float \<open>b\<close>, is positive, let \<open>c\<close> be
  the change that \<open>pct_change\<close> computes on floats, the rounded quotient of the rounded
  difference. The classifier returns a signal list, and the revenue signals in it are
  exactly one of severity medium when \<open>c\<close> is the float -0.15 (and whenever \<open>c\<close> is at
  most the float -0.15 and above -0.25), exactly one of severity high when \<open>c\<close> is at
  most -0.25, and none when \<open>c\<close> is above the float -0.15.
\<close>

theorem revenue_drop_severity:
  assumes "base_revenue row = Some b0" and "b = py_float b0" and "0 < b"
    and "c = fdiv (fsub (py_float (revenue row)) b) b"
  shows "\<exists>sigs. classify row = Inr sigs
     \<and> (c = - revenue_drop_medium \<longrightarrow> revenue_part sigs = [revenue_signal ''medium'' c])
     \<and> (c \<le> - revenue_drop_medium \<and> - revenue_drop_high < c \<longrightarrow>
          revenue_part sigs = [revenue_signal ''medium'' c])
     \<and> (c \<le> - revenue_drop_high \<longrightarrow> revenue_part sigs = [revenue_signal ''high'' c])
     \<and> (- revenue_drop_medium < c \<longrightarrow> revenue_part sigs = [])"
proof -
  define rest where "rest =
     orders_signals (projr (pct_change (Some (py_float (orders_count row)))
                              (map_option py_float (base_orders_count row))))
     @ aov_signals (projr (pct_change (Some (py_float (avg_order_value row)))
                             (map_option py_float (base_avg_order_value row))))
     @ cancel_signals (projr (pct_change (Some (py_float (canceled_orders row)))
                                (map_option py_float (base_canceled_orders row))))"
  have pc: "pct_change (Some (py_float (revenue row))) (map_option py_float (base_revenue row))
      = Inr (Some c)"
    using assms by (simp add: pct_change_Inr)
  have cl: "classify row = Inr (revenue_signals (Some c) @ rest)"
    by (simp add: classify_Inr pc rest_def)
  have rest: "filter (\<lambda>s. metric s = ''revenue'') rest = []"
    by (simp add: rest_def other_signals_not_revenue)
  have rs: "revenue_signals (Some c) =
      (if c \<le> - revenue_drop_medium
       then [revenue_signal (if revenue_drop_high \<le> \<bar>c\<bar> then ''high'' else ''medium'') c]
       else [])"
    by (simp add: revenue_signals_def revenue_signal_def py_le_def py_ge_def py_abs_def
        str_nat_ROLLING_DAYS)
  have m: "metric (revenue_signal sev c) = ''revenue''" for sev
    by (simp add: revenue_signal_def)
  have fl: "filter (\<lambda>s. metric s = ''revenue'') (revenue_signals (Some c) @ rest) =
      (if c \<le> - revenue_drop_medium
       then [revenue_signal (if revenue_drop_high \<le> \<bar>c\<bar> then ''high'' else ''medium'') c]
       else [])"
    by (simp add: rest rs m)
  show ?thesis
  proof (intro exI conjI impI)
    show "classify row = Inr (revenue_signals (Some c) @ rest)" by (rule cl)
  qed (unfold revenue_part_def fl, simp_all add: abs_if revenue_thresholds)
qed

theorem revenue_drop_severity_witness:
  "base_revenue sample_candidate = Some 1000 \<and> 1000 = py_float 1000 \<and> (0::real) < 1000
   \<and> - revenue_drop_medium = fdiv (fsub (py_float (revenue sample_candidate)) 1000) 1000
   \<and> (\<exists>sigs. classify sample_candidate = Inr sigs
        \<and> revenue_part sigs
            = [\<lparr> metric = ''revenue'', direction = ''down'', severity = ''medium'',
                 details = ''Revenue -15% vs 7-day avg'' \<rparr>])"
proof -
  have b: "base_revenue sample_candidate = Some 1000" by (simp add: sample_candidate_def)
  have f: "1000 = py_float 1000" by (simp add: py_float_def double_eval)
  have p: "- revenue_drop_medium = fdiv (fsub (py_float (revenue sample_candidate)) 1000) 1000"
    by (simp add: sample_candidate_def revenue_thresholds py_float_def fsub_def fdiv_def
        double_eval)
  have r: "py_round (fmul (- revenue_drop_medium) 100) = - 15"
    by (simp add: revenue_thresholds fmul_def double_eval)
  have s: "str_int (- 15) = ''-15''" by (simp add: str_int_def str_nat.simps digit_char_def)
  from revenue_drop_severity [OF b f _ p]
  obtain sigs where g: "classify sample_candidate = Inr sigs"
    "revenue_part sigs = [revenue_signal ''medium'' (- revenue_drop_medium)]"
    by auto
  have "revenue_signal ''medium'' (- revenue_drop_medium)
      = \<lparr> metric = ''revenue'', direction = ''down'', severity = ''medium'',
          details = ''Revenue -15% vs 7-day avg'' \<rparr>"
    by (simp add: revenue_signal_def r s)
  then show ?thesis using g b f p by simp
qed

subsection \<open>The daily table of build_daily_kpi.py\<close>

lemma group_keys_props:
  "sorted (group_keys orders)" "distinct (group_keys orders)"
  "set (group_keys orders) = (\<lambda>ord. the (purchase_date ord)) ` set orders"
  by (simp_all add: group_keys_def)

lemma combine_dates: "map frame_row.date (combine hp orders a b) = group_keys orders"
  by (simp add: combine_def Let_def comp_def)

lemma sort_combine: "sort_key frame_row.date (combine hp orders a b) = combine hp orders a b"
  by (rule sort_key_id_if_sorted) (simp add: combine_dates group_keys_props)

lemma fillna0_Some: "\<exists>v. fillna0 x = Some v"
  by (cases x) (simp_all add: fillna0_def)

lemma combine_row:
  assumes "r \<in> set (combine hp orders a b)"
  shows "\<exists>n v c. frame_row.orders_count r = Some n \<and> 0 \<le> n
     \<and> frame_row.revenue r = Some v \<and> frame_row.canceled_orders r = Some c"
proof -
  obtain d where
    r: "frame_row.orders_count r
        = Some (real (nunique (map order.order_id (filter (\<lambda>ord. purchase_date ord = Some d) orders))))"
      "frame_row.revenue r = (if hp then fillna0 (group_sum b d) else fillna0 (group_sum a d))"
      "\<exists>c. frame_row.canceled_orders r = Some c"
    using assms(1) by (auto simp: combine_def Let_def)
  obtain v where "frame_row.revenue r = Some v"
    using r(2) fillna0_Some [of "group_sum b d"] fillna0_Some [of "group_sum a d"]
    by (auto split: if_splits)
  then show ?thesis using r(1,3) by auto
qed

lemma reindex_dates: "map frame_row.date (reindex fr daily) = fr"
proof -
  have "frame_row.date (case find (\<lambda>r. frame_row.date r = d) daily of
            Some r \<Rightarrow> r | None \<Rightarrow> blank_row d) = d" for d
    by (auto simp: blank_row_def find_Some_iff split: option.splits)
  then show ?thesis
    by (simp add: reindex_def comp_def)
qed

lemma reindex_row:
  assumes "r \<in> set (reindex fr daily)"
  shows "r \<in> set daily \<or> (r = blank_row (frame_row.date r) \<and> frame_row.date r \<notin> frame_row.date ` set daily)"
proof -
  from assms obtain d where
    r: "r = (case find (\<lambda>r. frame_row.date r = d) daily of Some r \<Rightarrow> r | None \<Rightarrow> blank_row d)"
    by (auto simp: reindex_def)
  show ?thesis
  proof (cases "find (\<lambda>r. frame_row.date r = d) daily")
    case None
    then have "d \<notin> frame_row.date ` set daily" by (auto simp: find_None_iff)
    then show ?thesis using r None by (simp add: blank_row_def)
  next
    case (Some r0)
    then have "r0 \<in> set daily" by (auto simp: find_Some_iff)
    then show ?thesis using r Some by simp
  qed
qed

lemma recompute_aov_Inr:
  assumes "frame_row.orders_count r = Some n" and "frame_row.revenue r = Some v"
  shows "recompute_aov r = Inr (with_aov (aov_of v n) r)"
  using assms
  by (simp add: recompute_aov_def py_lt_def py_truediv_def aov_of_def with_aov_def)

lemma apply_rows_map:
  "(\<And>r. r \<in> set rs \<Longrightarrow> f (h r) = Inr (g r)) \<Longrightarrow> apply_rows f (map h rs) = Inr (map g rs)"
  by (induction rs) simp_all

lemma recompute_filled:
  "recompute_aov (fill_zero hp r) = Inr (final_row hp r)"
proof -
  obtain n where n: "frame_row.orders_count (fill_zero hp r) = Some n"
    using fillna0_Some [of "frame_row.orders_count r"] by (auto simp: fill_zero_def)
  obtain v where v: "frame_row.revenue (fill_zero hp r) = Some v"
    using fillna0_Some [of "frame_row.revenue r"] by (auto simp: fill_zero_def)
  show ?thesis
    by (simp add: final_row_def recompute_aov_Inr [OF n v])
qed

lemma final_row_blank:
  "frame_row.orders_count (final_row hp (blank_row d)) = Some 0"
  "frame_row.revenue (final_row hp (blank_row d)) = Some 0"
  "frame_row.canceled_orders (final_row hp (blank_row d)) = Some 0"
  "frame_row.avg_order_value (final_row hp (blank_row d)) = Finite 0"
  by (simp_all add: final_row_def fill_zero_def recompute_aov_def blank_row_def fillna0_def py_lt_def)

lemma final_row_counted:
  assumes "frame_row.orders_count r = Some n" and "frame_row.revenue r = Some v"
  shows "final_row hp r = with_aov (aov_of v n) (fill_zero hp r)"
    and "frame_row.orders_count (final_row hp r) = Some n"
    and "frame_row.revenue (final_row hp r) = Some v"
    and "frame_row.avg_order_value (final_row hp r) = aov_of v n"
proof -
  have n: "frame_row.orders_count (fill_zero hp r) = Some n"
    and v: "frame_row.revenue (fill_zero hp r) = Some v"
    using assms by (simp_all add: fill_zero_def fillna0_def)
  show f: "final_row hp r = with_aov (aov_of v n) (fill_zero hp r)"
    by (simp add: final_row_def recompute_aov_Inr [OF n v])
  show "frame_row.orders_count (final_row hp r) = Some n"
    and "frame_row.revenue (final_row hp r) = Some v"
    and "frame_row.avg_order_value (final_row hp r) = aov_of v n"
    using n v by (simp_all add: f with_aov_def)
qed

lemma final_row_date [simp]: "frame_row.date (final_row hp r) = frame_row.date r"
proof -
  obtain n where n: "frame_row.orders_count (fill_zero hp r) = Some n"
    using fillna0_Some [of "frame_row.orders_count r"] by (auto simp: fill_zero_def)
  obtain v where v: "frame_row.revenue (fill_zero hp r) = Some v"
    using fillna0_Some [of "frame_row.revenue r"] by (auto simp: fill_zero_def)
  show ?thesis
    unfolding final_row_def recompute_aov_Inr [OF n v]
    by (simp add: with_aov_def fill_zero_def)
qed

lemma build_unfold:
  assumes "purchase_days all_orders \<noteq> []"
    and "orders = filter (\<lambda>ord. order_purchase_timestamp ord \<noteq> None) all_orders"
    and "hp = (payments_file \<noteq> None)"
  shows "build_daily_kpi (Some all_orders) (Some items) payments_file =
     Inr \<lparr> cols = out_cols hp,
           data = map (final_row hp)
                    (reindex [Min (set (purchase_days all_orders)) .. Max (set (purchase_days all_orders))]
                       (combine hp orders (items_merged items orders)
                          (case payments_file of None \<Rightarrow> []
                           | Some payments \<Rightarrow> payments_merged payments orders))) \<rparr>"
proof -
  have ne: "orders \<noteq> []"
    using assms(1) by (simp add: purchase_days_def assms(2))
  have d: "set (map frame_row.date (combine hp orders a b)) = set (purchase_days all_orders)" for a b
    by (simp add: combine_dates group_keys_props purchase_days_def assms(2))
  have f: "apply_rows recompute_aov (map (fill_zero hp) rs) = Inr (map (final_row hp) rs)" for rs
    by (rule apply_rows_map) (rule recompute_filled)
  show ?thesis
    unfolding build_daily_kpi_def assms(2) [symmetric] assms(3) [symmetric] option.case Let_def
      sort_combine d
    by (simp only: ne if_False f sum.case)
qed

lemma final_rows:
  assumes "purchase_days all_orders \<noteq> []"
    and "build_daily_kpi (Some all_orders) (Some items) payments_file = Inr out"
    and "r \<in> set (data out)"
  shows "(frame_row.date r \<notin> set (purchase_days all_orders)
            \<and> frame_row.orders_count r = Some 0 \<and> frame_row.revenue r = Some 0
            \<and> frame_row.canceled_orders r = Some 0 \<and> frame_row.avg_order_value r = Finite 0)
     \<or> (frame_row.date r \<in> set (purchase_days all_orders)
            \<and> (\<exists>n v. frame_row.orders_count r = Some n \<and> 0 \<le> n \<and> frame_row.revenue r = Some v
                  \<and> frame_row.avg_order_value r = aov_of v n))"
proof -
  define orders where "orders = filter (\<lambda>ord. order_purchase_timestamp ord \<noteq> None) all_orders"
  define hp where "hp = (payments_file \<noteq> None)"
  define daily where "daily = combine hp orders (items_merged items orders)
      (case payments_file of None \<Rightarrow> [] | Some payments \<Rightarrow> payments_merged payments orders)"
  have dd: "frame_row.date ` set daily = set (purchase_days all_orders)"
    using combine_dates [of hp orders] unfolding daily_def
    by (metis (no_types, lifting) orders_def group_keys_props(3) list.set_map purchase_days_def)
  from assms(2,3) obtain r0 where r0: "r0 \<in> set (reindex
        [Min (set (purchase_days all_orders)) .. Max (set (purchase_days all_orders))] daily)"
    and r: "r = final_row hp r0"
    unfolding build_unfold [OF assms(1) orders_def hp_def] daily_def by auto
  from reindex_row [OF r0] show ?thesis
  proof
    assume "r0 \<in> set daily"
    then have "frame_row.date r0 \<in> set (purchase_days all_orders)" using dd by auto
    moreover obtain n v where "frame_row.orders_count r0 = Some n" "0 \<le> n" "frame_row.revenue r0 = Some v"
      using combine_row [OF \<open>r0 \<in> set daily\<close> [unfolded daily_def]] by auto
    ultimately show ?thesis using final_row_counted(2-4) [of r0 n v hp] r by auto
  next
    assume "r0 = blank_row (frame_row.date r0) \<and> frame_row.date r0 \<notin> frame_row.date ` set daily"
    then have b: "r0 = blank_row (frame_row.date r0)" and n: "frame_row.date r0 \<notin> set (purchase_days all_orders)"
      using dd by auto
    show ?thesis
      using final_row_blank [of hp "frame_row.date r0"] n unfolding r b [symmetric] by simp
  qed
qed


lemma sample_purchase_days: "purchase_days sample_orders = [17171, 17174, 17171, 17175]"
  by (simp add: purchase_days_def sample_orders_def sample_order_def purchase_date_def)

lemma sample_build:
  "build_daily_kpi (Some sample_orders) (Some sample_items) None =
     Inr \<lparr> cols = [''date'', ''orders_count'', ''revenue'', ''canceled_orders'', ''avg_order_value''],
           data = map (final_row False)
                    (reindex [17171, 17172, 17173, 17174, 17175]
                       (combine False (filter (\<lambda>ord. order_purchase_timestamp ord \<noteq> None) sample_orders)
                          (items_merged sample_items
                             (filter (\<lambda>ord. order_purchase_timestamp ord \<noteq> None) sample_orders)) [])) \<rparr>"
proof -
  have n: "purchase_days sample_orders \<noteq> []" by (simp add: sample_purchase_days)
  have u: "[17171..17175] = [17171, 17172, 17173, 17174, 17175::int]" by (simp add: upto.simps)
  show ?thesis
    unfolding build_unfold [OF n refl refl] by (simp add: sample_purchase_days u out_cols_def)
qed

lemma sample_floats:
  "read_float (Some 5) = Some 5"
  "read_float (Some (7 / 20)) = Some (3152519739159347 / 9007199254740992)"
  "read_float None = None"
  "fadd 5 0 = 5"
  "fadd 5 (3152519739159347 / 9007199254740992) = 3011782250804019 / 562949953421312"
  by (simp_all add: read_float_def fadd_def double_eval)

lemma sample_sums:
  "kahan_add (0, 0) 5 = (5, 0)"
  "kahan_add (0, 0) (3011782250804019 / 562949953421312) = (3011782250804019 / 562949953421312, 0)"
  by (simp_all add: kahan_add_def fadd_def fsub_def double_eval)

lemma sample_aov:
  "aov_of (3011782250804019 / 562949953421312) 2 = Finite (1503076375634903 / 562949953421312)"
  "aov_of 5 1 = Finite 5"
  "aov_of 5 0 = Finite 0"
  by (simp_all add: aov_of_def round2_def fdiv_def double_eval)

lemma sample_combine:
  "combine False (filter (\<lambda>ord. order_purchase_timestamp ord \<noteq> None) sample_orders)
     (items_merged sample_items
        (filter (\<lambda>ord. order_purchase_timestamp ord \<noteq> None) sample_orders)) [] =
   [\<lparr> frame_row.date = 17171, orders_count = Some 2, canceled_orders = Some 0,
      revenue_items = Some (3011782250804019 / 562949953421312), revenue_payments = None,
      revenue = Some (3011782250804019 / 562949953421312),
      avg_order_value = np_round2 (np_div (Some (3011782250804019 / 562949953421312)) (Some 2)) \<rparr>,
    \<lparr> frame_row.date = 17174, orders_count = Some 1, canceled_orders = Some 1,
      revenue_items = Some 5, revenue_payments = None, revenue = Some 5,
      avg_order_value = np_round2 (np_div (Some 5) (Some 1)) \<rparr>,
    \<lparr> frame_row.date = 17175, orders_count = Some 0, canceled_orders = Some 0,
      revenue_items = Some 5, revenue_payments = None, revenue = Some 5,
      avg_order_value = np_round2 (np_div (Some 5) (Some 0)) \<rparr>]"
  by (simp add: sample_orders_def sample_order_def sample_items_def
      combine_def group_keys_def purchase_date_def items_merged_def merge_orders_def
      group_sum_def nunique_def canceled_count_def fillna0_def py_add_def
      sample_floats sample_sums Let_def)

lemma sample_build_frame:
  "build_daily_kpi (Some sample_orders) (Some sample_items) None = Inr sample_frame"
  unfolding sample_build sample_combine
  by (simp add: sample_frame_def reindex_def blank_row_def final_row_counted(1)
      final_row_def fill_zero_def recompute_aov_def py_lt_def py_truediv_def fillna0_def
      np_fillna0_def with_aov_def sample_aov [unfolded aov_of_def, simplified])


text \<open>
  C2. When the orders file has at least one order with a parseable purchase timestamp:
  without the items file the script raises; with it, the script gives a frame whose dates
  are, in this order, the calendar days from the first purchase day \<open>lo\<close> to the last
  purchase day \<open>hi\<close>, each once and none left out. A day on which no order was purchased
  has a row of zeros (orders_count, revenue, canceled_orders and avg_order_value).
\<close>

theorem calendar_spine:
  assumes "purchase_days all_orders \<noteq> []"
    and "lo = Min (set (purchase_days all_orders))" and "hi = Max (set (purchase_days all_orders))"
  shows "build_daily_kpi (Some all_orders) None payments_file = Inl (FileNotFoundError ITEMS_FILE)
     \<and> (\<exists>out. build_daily_kpi (Some all_orders) (Some items) payments_file = Inr out
           \<and> map frame_row.date (data out) = [lo..hi]
           \<and> distinct (map frame_row.date (data out))
           \<and> set (map frame_row.date (data out)) = {lo..hi}
           \<and> lo \<le> hi
           \<and> (\<forall>r \<in> set (data out).
                 frame_row.date r \<notin> set (purchase_days all_orders) \<longrightarrow>
                   frame_row.orders_count r = Some 0 \<and> frame_row.revenue r = Some 0
                   \<and> frame_row.canceled_orders r = Some 0
                   \<and> frame_row.avg_order_value r = Finite 0))"
proof -
  define orders where "orders = filter (\<lambda>ord. order_purchase_timestamp ord \<noteq> None) all_orders"
  define hp where "hp = (payments_file \<noteq> None)"
  have ne: "orders \<noteq> []" using assms(1) by (simp add: purchase_days_def orders_def)
  have a: "build_daily_kpi (Some all_orders) None payments_file = Inl (FileNotFoundError ITEMS_FILE)"
    using ne by (simp add: build_daily_kpi_def orders_def Let_def)
  note b = build_unfold [OF assms(1) orders_def hp_def, of items]
  have dates: "map frame_row.date (data (projr (build_daily_kpi (Some all_orders) (Some items) payments_file)))
      = [lo..hi]"
    unfolding b by (simp add: comp_def reindex_dates assms(2,3))
  have rows: "frame_row.orders_count r = Some 0 \<and> frame_row.revenue r = Some 0
            \<and> frame_row.canceled_orders r = Some 0 \<and> frame_row.avg_order_value r = Finite 0"
    if "r \<in> set (data (projr (build_daily_kpi (Some all_orders) (Some items) payments_file)))"
      and "frame_row.date r \<notin> set (purchase_days all_orders)" for r
    using final_rows [OF assms(1) _ that(1)] that(2) b by auto
  have le: "lo \<le> hi" using assms by simp
  show ?thesis
  proof (intro conjI exI)
    show "build_daily_kpi (Some all_orders) (Some items) payments_file
        = Inr (projr (build_daily_kpi (Some all_orders) (Some items) payments_file))"
      unfolding b by simp
  qed (use a dates rows le in \<open>auto simp del: set_map simp: set_map [symmetric]\<close>)
qed

theorem calendar_spine_witness:
  "purchase_days sample_orders \<noteq> []
   \<and> 17171 = Min (set (purchase_days sample_orders))
   \<and> 17175 = Max (set (purchase_days sample_orders))
   \<and> (\<exists>out. build_daily_kpi (Some sample_orders) (Some sample_items) None = Inr out
         \<and> map frame_row.date (data out) = [17171, 17172, 17173, 17174, 17175]
         \<and> (\<forall>r \<in> set (data out). frame_row.date r = 17172 \<longrightarrow>
               frame_row.orders_count r = Some 0 \<and> frame_row.revenue r = Some 0
               \<and> frame_row.canceled_orders r = Some 0
               \<and> frame_row.avg_order_value r = Finite 0))"
proof -
  have n: "purchase_days sample_orders \<noteq> []" by (simp add: sample_purchase_days)
  have lo: "17171 = Min (set (purchase_days sample_orders))" by (simp add: sample_purchase_days)
  have hi: "17175 = Max (set (purchase_days sample_orders))" by (simp add: sample_purchase_days)
  have u: "[17171..17175] = [17171, 17172, 17173, 17174, 17175::int]" by (simp add: upto.simps)
  have m: "(17172::int) \<notin> set (purchase_days sample_orders)" by (simp add: sample_purchase_days)
  from calendar_spine [OF n lo hi, of None sample_items]
  obtain out where o: "build_daily_kpi (Some sample_orders) (Some sample_items) None = Inr out"
    "map frame_row.date (data out) = [17171..17175]"
    "\<forall>r \<in> set (data out).
        frame_row.date r \<notin> set (purchase_days sample_orders) \<longrightarrow>
          frame_row.orders_count r = Some 0 \<and> frame_row.revenue r = Some 0
          \<and> frame_row.canceled_orders r = Some 0 \<and> frame_row.avg_order_value r = Finite 0"
    by blast
  show ?thesis
    using n lo hi o m unfolding u by (intro conjI exI [of _ out]) auto
qed

lemma recompute_overwrites:
  assumes "frame_row.orders_count r = Some n" and "frame_row.revenue r = Some v"
    and "frame_row.avg_order_value r = aov_of v n"
  shows "recompute_aov (with_aov stale r) = Inr r"
proof -
  have "recompute_aov (with_aov stale r) = Inr (with_aov (aov_of v n) (with_aov stale r))"
    using assms(1,2) by (intro recompute_aov_Inr) (simp_all add: with_aov_def)
  also have "with_aov (aov_of v n) (with_aov stale r) = r"
    using assms(3) by (simp add: with_aov_def)
  finally show ?thesis .
qed

lemma sample_stale:
  "map frame_row.avg_order_value
     (combine False (filter (\<lambda>ord. order_purchase_timestamp ord \<noteq> None) sample_orders)
        (items_merged sample_items
           (filter (\<lambda>ord. order_purchase_timestamp ord \<noteq> None) sample_orders)) [])
   = [Finite (6034823500676465 / 2251799813685248), Finite 5, Inf]"
  unfolding sample_combine
  by (simp add: np_round2_def np_div_def fdiv_def fmul_def double_eval)

text \<open>
  C3, as stated, fails: the day 2017-01-09 of the sample has one order, which has no
  identifier, and an item without identifier that the merge pairs with it. Its row has
  \<open>orders_count = 0\<close> and the revenue 5.
\<close>

theorem avg_order_value_recomputed_counterexample:
  "build_daily_kpi (Some sample_orders) (Some sample_items) None = Inr sample_frame
   \<and> data sample_frame ! 4 \<in> set (data sample_frame)
   \<and> frame_row.date (data sample_frame ! 4) = 17175
   \<and> frame_row.orders_count (data sample_frame ! 4) = Some 0
   \<and> frame_row.revenue (data sample_frame ! 4) = Some 5
   \<and> frame_row.revenue (data sample_frame ! 4) \<noteq> Some 0
   \<and> frame_row.avg_order_value (data sample_frame ! 4) = Finite 0"
  by (simp add: sample_build_frame) (simp add: sample_frame_def)

text \<open>
  C3, amended. With at least one parseable purchase timestamp and the items file, the
  script gives a frame, and every row of it has a number of orders \<open>n \<ge> 0\<close> and a
  revenue \<open>v\<close> with: avg_order_value is \<open>round(v / n, 2)\<close>, on floats, when \<open>n > 0\<close>, and
  0 when \<open>n = 0\<close>; on a day on which no order was purchased \<open>n\<close> and \<open>v\<close> are both 0. The
  value is the one computed after the fill, from the revenue and the count of the row
  alone: whatever the column held before, lines 167 to 171 give this row.
\<close>

theorem avg_order_value_recomputed:
  assumes "purchase_days all_orders \<noteq> []"
  shows "\<exists>out. build_daily_kpi (Some all_orders) (Some items) payments_file = Inr out
     \<and> (\<forall>r \<in> set (data out).
           \<exists>n v. frame_row.orders_count r = Some n \<and> frame_row.revenue r = Some v \<and> 0 \<le> n
             \<and> (0 < n \<longrightarrow> frame_row.avg_order_value r = Finite (round2 (fdiv v n)))
             \<and> (n = 0 \<longrightarrow> frame_row.avg_order_value r = Finite 0)
             \<and> (frame_row.date r \<notin> set (purchase_days all_orders) \<longrightarrow> n = 0 \<and> v = 0)
             \<and> (\<forall>stale. recompute_aov (with_aov stale r) = Inr r))"
proof -
  obtain out where out: "build_daily_kpi (Some all_orders) (Some items) payments_file = Inr out"
    using build_unfold [OF assms refl refl] by blast
  have "\<exists>n v. frame_row.orders_count r = Some n \<and> frame_row.revenue r = Some v \<and> 0 \<le> n
             \<and> (0 < n \<longrightarrow> frame_row.avg_order_value r = Finite (round2 (fdiv v n)))
             \<and> (n = 0 \<longrightarrow> frame_row.avg_order_value r = Finite 0)
             \<and> (frame_row.date r \<notin> set (purchase_days all_orders) \<longrightarrow> n = 0 \<and> v = 0)
             \<and> (\<forall>stale. recompute_aov (with_aov stale r) = Inr r)"
    if r: "r \<in> set (data out)" for r
    using final_rows [OF assms out r]
  proof (elim disjE conjE exE)
    assume z: "frame_row.orders_count r = Some 0" "frame_row.revenue r = Some 0"
      "frame_row.avg_order_value r = Finite 0"
    have "frame_row.avg_order_value r = aov_of 0 0" using z(3) by (simp add: aov_of_def)
    from recompute_overwrites [OF z(1,2) this] z show ?thesis by simp
  next
    fix n v
    assume c: "frame_row.date r \<in> set (purchase_days all_orders)"
      "frame_row.orders_count r = Some n" "0 \<le> n" "frame_row.revenue r = Some v"
      "frame_row.avg_order_value r = aov_of v n"
    from recompute_overwrites [OF c(2,4,5)] c show ?thesis by (simp add: aov_of_def)
  qed
  then show ?thesis using out by blast
qed

theorem avg_order_value_recomputed_witness:
  "purchase_days sample_orders \<noteq> []
   \<and> build_daily_kpi (Some sample_orders) (Some sample_items) None = Inr sample_frame
   \<and> frame_row.orders_count (data sample_frame ! 0) = Some 2
   \<and> frame_row.avg_order_value (data sample_frame ! 0)
       = Finite (round2 (fdiv (3011782250804019 / 562949953421312) 2))
   \<and> frame_row.avg_order_value (data sample_frame ! 0)
       = Finite (1503076375634903 / 562949953421312)
   \<and> frame_row.orders_count (data sample_frame ! 1) = Some 0
   \<and> frame_row.revenue (data sample_frame ! 1) = Some 0
   \<and> frame_row.avg_order_value (data sample_frame ! 1) = Finite 0
   \<and> recompute_aov (with_aov Inf (data sample_frame ! 4)) = Inr (data sample_frame ! 4)
   \<and> map frame_row.avg_order_value
        (combine False (filter (\<lambda>ord. order_purchase_timestamp ord \<noteq> None) sample_orders)
           (items_merged sample_items
              (filter (\<lambda>ord. order_purchase_timestamp ord \<noteq> None) sample_orders)) [])
       = [Finite (6034823500676465 / 2251799813685248), Finite 5, Inf]"
proof -
  have n: "purchase_days sample_orders \<noteq> []" by (simp add: sample_purchase_days)
  have m: "data sample_frame ! 0 \<in> set (data sample_frame)"
    "data sample_frame ! 1 \<in> set (data sample_frame)"
    "data sample_frame ! 4 \<in> set (data sample_frame)"
    by (simp_all add: sample_frame_def)
  have c: "frame_row.orders_count (data sample_frame ! 0) = Some 2"
    "frame_row.revenue (data sample_frame ! 0) = Some (3011782250804019 / 562949953421312)"
    "frame_row.avg_order_value (data sample_frame ! 0) = Finite (1503076375634903 / 562949953421312)"
    "frame_row.orders_count (data sample_frame ! 1) = Some 0"
    "frame_row.date (data sample_frame ! 1) \<notin> set (purchase_days sample_orders)"
    by (simp_all add: sample_frame_def sample_purchase_days)
  from avg_order_value_recomputed [OF n, of sample_items None]
  have rows: "\<forall>r \<in> set (data sample_frame).
           \<exists>n v. frame_row.orders_count r = Some n \<and> frame_row.revenue r = Some v \<and> 0 \<le> n
             \<and> (0 < n \<longrightarrow> frame_row.avg_order_value r = Finite (round2 (fdiv v n)))
             \<and> (n = 0 \<longrightarrow> frame_row.avg_order_value r = Finite 0)
             \<and> (frame_row.date r \<notin> set (purchase_days sample_orders) \<longrightarrow> n = 0 \<and> v = 0)
             \<and> (\<forall>stale. recompute_aov (with_aov stale r) = Inr r)"
    unfolding sample_build_frame by simp
  from rows m(1) obtain n0 v0 where h0: "frame_row.orders_count (data sample_frame ! 0) = Some n0"
    "frame_row.revenue (data sample_frame ! 0) = Some v0"
    "0 < n0 \<longrightarrow> frame_row.avg_order_value (data sample_frame ! 0) = Finite (round2 (fdiv v0 n0))"
    by blast
  have nv: "n0 = 2" "v0 = 3011782250804019 / 562949953421312"
    using h0(1,2) unfolding c by simp_all
  have r0: "frame_row.avg_order_value (data sample_frame ! 0)
      = Finite (round2 (fdiv (3011782250804019 / 562949953421312) 2))"
    using h0(3) unfolding nv by simp
  from rows m(2) obtain n1 v1 where h1: "frame_row.orders_count (data sample_frame ! 1) = Some n1"
    "frame_row.revenue (data sample_frame ! 1) = Some v1"
    "n1 = 0 \<longrightarrow> frame_row.avg_order_value (data sample_frame ! 1) = Finite 0"
    "frame_row.date (data sample_frame ! 1) \<notin> set (purchase_days sample_orders) \<longrightarrow> n1 = 0 \<and> v1 = 0"
    by blast
  have r1: "frame_row.revenue (data sample_frame ! 1) = Some 0"
    "frame_row.avg_order_value (data sample_frame ! 1) = Finite 0"
    using h1 c(5) by simp_all
  from rows m(3) have r4: "recompute_aov (with_aov Inf (data sample_frame ! 4)) = Inr (data sample_frame ! 4)"
    by blast
  show ?thesis using n sample_build_frame c(1,3,4) r0 r1 r4 sample_stale by simp
qed

end
